theory Spec2Isabelle
  imports Complex_Main
begin

section \<open>Python values\<close>

text \<open>
  The coordinators and entities of the integration handle decoded JSON and the arguments
  of service calls: \<open>None\<close>, booleans, integers, floats, strings, lists and dictionaries.
  A dictionary is an association list in insertion order.

  A float is the real number it denotes, an infinity, or not a number. The two zeros of
  the floats, which are equal in every comparison, are one value here.
\<close>

datatype pyfloat = Finite real | PosInf | NegInf | NaN

datatype pyval =
    PNone
  | PBool bool
  | PInt int
  | PFloat pyfloat
  | PStr string
  | PList "pyval list"
  | PDict "(pyval \<times> pyval) list"

type_synonym pydict = "(pyval \<times> pyval) list"

text \<open>
  The exceptions of \<open>tesla_fleet_api.exceptions\<close> that the coordinators name, every other
  subclass of \<open>TeslaFleetError\<close> under \<open>OtherFleetError\<close> with its message.
\<close>

datatype fleet_error =
    VehicleOffline
  | InternalServerError
  | ServiceUnavailable
  | GatewayTimeout
  | DeviceUnexpectedResponse
  | InvalidToken
  | SubscriptionRequired
  | Forbidden
  | LoginRequired
  | OtherFleetError string

text \<open>
  The argument of \<open>UpdateFailed\<close>: one of the two literal messages of \<open>coordinator.py\<close>, or
  \<open>e.message\<close> of the vendor error \<open>e\<close> being handled.
\<close>

datatype update_failed_msg =
    Multiple5xx
  | InvalidResponse
  | MessageOf fleet_error

datatype exc =
    Fleet fleet_error
  | TypeError
  | KeyError
  | IndexError
  | AttributeError
  | OverflowError
  | UpdateFailed update_failed_msg
  | ConfigEntryAuthFailed
  | ServiceValidationError string
  | OtherException string

text \<open>Truth value of an object, as \<open>if\<close> and \<open>or\<close> test it.\<close>

fun truthy :: "pyval \<Rightarrow> bool" where
  "truthy PNone = False"
| "truthy (PBool b) = b"
| "truthy (PInt i) = (i \<noteq> 0)"
| "truthy (PFloat x) = (x \<noteq> Finite 0)"
| "truthy (PStr s) = (s \<noteq> [])"
| "truthy (PList xs) = (xs \<noteq> [])"
| "truthy (PDict d) = (d \<noteq> [])"

text \<open>
  \<open>bool\<close> is a subclass of \<open>int\<close>: \<open>True\<close> is the number 1 as an index, a key and a summand.
  A float is not an index.
\<close>

fun as_int :: "pyval \<Rightarrow> int option" where
  "as_int (PBool b) = Some (if b then 1 else 0)"
| "as_int (PInt i) = Some i"
| "as_int _ = None"

fun hashable :: "pyval \<Rightarrow> bool" where
  "hashable (PList xs) = False"
| "hashable (PDict d) = False"
| "hashable _ = True"

text \<open>
  The value of a number that has one: of a boolean, an integer and a finite float.
  Numbers of different types are compared by their exact values.
\<close>

fun real_of :: "pyval \<Rightarrow> real option" where
  "real_of (PBool b) = Some (if b then 1 else 0)"
| "real_of (PInt i) = Some (of_int i)"
| "real_of (PFloat (Finite x)) = Some x"
| "real_of _ = None"

fun is_number :: "pyval \<Rightarrow> bool" where
  "is_number (PBool b) = True"
| "is_number (PInt i) = True"
| "is_number (PFloat x) = True"
| "is_number _ = False"

text \<open>\<open>v == n\<close> for an integer literal \<open>n\<close>.\<close>

definition eq_int :: "pyval \<Rightarrow> int \<Rightarrow> bool" where
  "eq_int v n = (real_of v = Some (of_int n))"

text \<open>
  Equality of two hashable objects as dictionary keys: equal numbers are one key
  whatever their types, and not-a-number equals nothing (a dictionary finds such a key
  again only through the identity of the object, which values do not have here).
\<close>

definition key_eq :: "pyval \<Rightarrow> pyval \<Rightarrow> bool" where
  "key_eq a b =
     (case real_of a of
        Some x \<Rightarrow> (case real_of b of Some y \<Rightarrow> x = y | None \<Rightarrow> False)
      | None \<Rightarrow> (case real_of b of Some y \<Rightarrow> False | None \<Rightarrow> a = b \<and> a \<noteq> PFloat NaN))"

fun dict_lookup :: "pydict \<Rightarrow> pyval \<Rightarrow> pyval option" where
  "dict_lookup [] k = None"
| "dict_lookup ((k', v) # d) k = (if key_eq k' k then Some v else dict_lookup d k)"

text \<open>
  \<open>d[k] = v\<close>: an existing key keeps its place (and its key object), a new key goes to
  the end.
\<close>

fun dict_store :: "pydict \<Rightarrow> pyval \<Rightarrow> pyval \<Rightarrow> pydict" where
  "dict_store [] k v = [(k, v)]"
| "dict_store ((k', v') # d) k v =
     (if key_eq k' k then (k', v) # d else (k', v') # dict_store d k v)"

text \<open>Indexing a sequence of length \<open>n\<close>: a negative index counts from the end.\<close>

definition seq_index :: "nat \<Rightarrow> int \<Rightarrow> nat option" where
  "seq_index n i =
     (let j = (if i < 0 then int n + i else i)
      in if 0 \<le> j \<and> j < int n then Some (nat j) else None)"

text \<open>\<open>obj[k]\<close>\<close>

fun py_getitem :: "pyval \<Rightarrow> pyval \<Rightarrow> exc + pyval" where
  "py_getitem (PDict d) k =
     (if hashable k
      then (case dict_lookup d k of Some v \<Rightarrow> Inr v | None \<Rightarrow> Inl KeyError)
      else Inl TypeError)"
| "py_getitem (PList xs) k =
     (case as_int k of
        None \<Rightarrow> Inl TypeError
      | Some i \<Rightarrow> (case seq_index (length xs) i of
                    None \<Rightarrow> Inl IndexError
                  | Some j \<Rightarrow> Inr (xs ! j)))"
| "py_getitem (PStr s) k =
     (case as_int k of
        None \<Rightarrow> Inl TypeError
      | Some i \<Rightarrow> (case seq_index (length s) i of
                    None \<Rightarrow> Inl IndexError
                  | Some j \<Rightarrow> Inr (PStr [s ! j])))"
| "py_getitem _ k = Inl TypeError"

text \<open>\<open>obj[k] = v\<close>, returning the object after the assignment.\<close>

fun py_setitem :: "pyval \<Rightarrow> pyval \<Rightarrow> pyval \<Rightarrow> exc + pyval" where
  "py_setitem (PDict d) k v =
     (if hashable k then Inr (PDict (dict_store d k v)) else Inl TypeError)"
| "py_setitem (PList xs) k v =
     (case as_int k of
        None \<Rightarrow> Inl TypeError
      | Some i \<Rightarrow> (case seq_index (length xs) i of
                    None \<Rightarrow> Inl IndexError
                  | Some j \<Rightarrow> Inr (PList (xs[j := v]))))"
| "py_setitem _ k v = Inl TypeError"

text \<open>\<open>obj.get(k, default)\<close>: only a dictionary has the method.\<close>

fun py_get :: "pyval \<Rightarrow> pyval \<Rightarrow> pyval \<Rightarrow> exc + pyval" where
  "py_get (PDict d) k dflt =
     (if hashable k
      then (case dict_lookup d k of Some v \<Rightarrow> Inr v | None \<Rightarrow> Inr dflt)
      else Inl TypeError)"
| "py_get _ k dflt = Inl AttributeError"

text \<open>The elements a \<open>for\<close> loop visits.\<close>

fun py_iter :: "pyval \<Rightarrow> exc + pyval list" where
  "py_iter (PList xs) = Inr xs"
| "py_iter (PDict d) = Inr (map fst d)"
| "py_iter (PStr s) = Inr (map (\<lambda>c. PStr [c]) s)"
| "py_iter _ = Inl TypeError"

text \<open>
  The arithmetic of the interpreter's floats is not part of the repository, and is a
  parameter of what follows: the addition of two floats, rounded as the machine rounds
  it, and the conversion of an integer to a float, which fails for an integer beyond the
  range of the floats.
\<close>

record float_ops =
  float_add :: "pyfloat \<Rightarrow> pyfloat \<Rightarrow> pyfloat"
  float_of_int :: "int \<Rightarrow> pyfloat option"

text \<open>
  \<open>a + b\<close>: integers (and booleans) are added exactly; when one operand is a float, the
  other is converted to a float and the two are added as floats.
\<close>

definition add_numbers :: "float_ops \<Rightarrow> pyval \<Rightarrow> pyval \<Rightarrow> exc + pyval" where
  "add_numbers fo a b =
     (case (a, b) of
        (PFloat x, PFloat y) \<Rightarrow> Inr (PFloat (float_add fo x y))
      | (PFloat x, _) \<Rightarrow>
          (case as_int b of
             None \<Rightarrow> Inl TypeError
           | Some j \<Rightarrow> (case float_of_int fo j of
                         None \<Rightarrow> Inl OverflowError
                       | Some y \<Rightarrow> Inr (PFloat (float_add fo x y))))
      | (_, PFloat y) \<Rightarrow>
          (case as_int a of
             None \<Rightarrow> Inl TypeError
           | Some i \<Rightarrow> (case float_of_int fo i of
                         None \<Rightarrow> Inl OverflowError
                       | Some x \<Rightarrow> Inr (PFloat (float_add fo x y))))
      | _ \<Rightarrow>
          (case as_int a of
             None \<Rightarrow> Inl TypeError
           | Some i \<Rightarrow> (case as_int b of
                         None \<Rightarrow> Inl TypeError
                       | Some j \<Rightarrow> Inr (PInt (i + j)))))"

fun py_add :: "float_ops \<Rightarrow> pyval \<Rightarrow> pyval \<Rightarrow> exc + pyval" where
  "py_add fo (PStr s) (PStr t) = Inr (PStr (s @ t))"
| "py_add fo (PList xs) (PList ys) = Inr (PList (xs @ ys))"
| "py_add fo a b = add_numbers fo a b"

fun is_dict :: "pyval \<Rightarrow> bool" where
  "is_dict (PDict d) = True"
| "is_dict _ = False"

fun is_list :: "pyval \<Rightarrow> bool" where
  "is_list (PList xs) = True"
| "is_list _ = False"


text \<open>Sequencing of computations that may raise: the first exception ends the computation.\<close>

definition bind_e :: "exc + 'a \<Rightarrow> ('a \<Rightarrow> exc + 'b) \<Rightarrow> exc + 'b" where
  "bind_e m f = (case m of Inl e \<Rightarrow> Inl e | Inr a \<Rightarrow> f a)"

section \<open>The polling coordinators (\<open>coordinator.py\<close>)\<close>

text \<open>
  Points in time and durations are integers, in microseconds (the resolution of
  \<open>datetime\<close> and \<open>timedelta\<close>).
\<close>

type_synonym timedelta = int

definition seconds :: "int \<Rightarrow> timedelta" where
  "seconds n = n * 1000000"

definition minutes :: "int \<Rightarrow> timedelta" where
  "minutes n = n * 60000000"

definition VEHICLE_INTERVAL :: timedelta where
  "VEHICLE_INTERVAL = seconds 30"

definition VEHICLE_WAIT :: timedelta where
  "VEHICLE_WAIT = minutes 15"

text \<open>
  Modelled from the spec: the members \<open>ONLINE\<close> and \<open>OFFLINE\<close> of the string enumeration
  \<open>TeslemetryState\<close>, declared in \<open>const.py\<close>, which is not among the sources. The spec
  names the values of the state field online, offline and asleep.
\<close>

definition ONLINE :: pyval where
  "ONLINE = PStr ''online''"

definition OFFLINE :: pyval where
  "OFFLINE = PStr ''offline''"

text \<open>
  What a coordinator does to the world, in order: the vendor calls it awaits, the events
  it fires on the bus (with the payload as it is when fired), the issues it registers.
\<close>

datatype effect =
    ApiVehicle
  | ApiVehicleData
  | ApiLiveStatus
  | ApiSiteInfo
  | ApiEnergyHistory
  | BusFire string pyval
  | CreateIssue fleet_error

text \<open>
  The attributes every coordinator has: the cached snapshot \<open>data\<close>, the polling interval
  and the failure counter. The vehicle coordinator adds the time of the last activity,
  \<open>updated_once\<close> and the flag \<open>api.pre2021\<close> of its vehicle.
\<close>

record coordinator =
  data :: pyval
  update_interval :: timedelta
  failures :: int

record vehicle_coordinator = coordinator +
  last_active :: int
  updated_once :: bool
  pre2021 :: bool

text \<open>
  What one call of the vehicle coordinator's \<open>_async_update_data\<close> receives from outside:
  the outcome of \<open>api.vehicle()\<close> and of \<open>api.vehicle_data(endpoints=ENDPOINTS)\<close>, should
  it await them (a response or an exception), and the first and the second reading of
  \<open>datetime.now()\<close>, should it take them.
\<close>

record vehicle_env =
  vehicle :: "exc + pyval"
  vehicle_data :: "exc + pyval"
  now1 :: int
  now2 :: int

text \<open>How the \<open>try\<close> block ends: it falls through with \<open>data\<close>, returns, or raises.\<close>

datatype flow = Fell pyval | Returned pyval | Raised exc

text \<open>Lines 78 to 80: the summary refresh of a vehicle whose cached state is not online.\<close>

definition refresh_state ::
  "vehicle_env \<Rightarrow> vehicle_coordinator \<Rightarrow> (exc + unit) \<times> vehicle_coordinator \<times> effect list" where
  "refresh_state env s =
     (case py_getitem (data s) (PStr ''state'') of
        Inl e \<Rightarrow> (Inl e, s, [])
      | Inr st \<Rightarrow>
          if st \<noteq> ONLINE then
            (case vehicle env of
               Inl e \<Rightarrow> (Inl e, s, [ApiVehicle])
             | Inr response \<Rightarrow>
                 (case bind_e (py_getitem response (PStr ''response''))
                         (\<lambda>r. py_getitem r (PStr ''state'')) of
                    Inl e \<Rightarrow> (Inl e, s, [ApiVehicle])
                  | Inr st' \<Rightarrow>
                      (case py_setitem (data s) (PStr ''state'') st' of
                         Inl e \<Rightarrow> (Inl e, s, [ApiVehicle])
                       | Inr d \<Rightarrow> (Inr (), s\<lparr>data := d\<rparr>, [ApiVehicle]))))
          else (Inr (), s, []))"

text \<open>Lines 77 to 86: the \<open>try\<close> block.\<close>

definition vehicle_try ::
  "vehicle_env \<Rightarrow> vehicle_coordinator \<Rightarrow> flow \<times> vehicle_coordinator \<times> effect list" where
  "vehicle_try env s =
     (case refresh_state env s of
        (Inl e, s1, tr) \<Rightarrow> (Raised e, s1, tr)
      | (Inr u, s1, tr) \<Rightarrow>
          (case py_getitem (data s1) (PStr ''state'') of
             Inl e \<Rightarrow> (Raised e, s1, tr)
           | Inr st \<Rightarrow>
               if st \<noteq> ONLINE then (Returned (data s1), s1, tr)
               else
                 (case vehicle_data env of
                    Inl e \<Rightarrow> (Raised e, s1, tr @ [ApiVehicleData])
                  | Inr response \<Rightarrow>
                      (case py_getitem response (PStr ''response'') of
                         Inl e \<Rightarrow> (Raised e, s1, tr @ [ApiVehicleData])
                       | Inr d \<Rightarrow> (Fell d, s1, tr @ [ApiVehicleData])))))"

text \<open>
  The tuple \<open>(InternalServerError, ServiceUnavailable, GatewayTimeout,
  DeviceUnexpectedResponse)\<close> of the second \<open>except\<close> clause.
\<close>

definition is_transient :: "fleet_error \<Rightarrow> bool" where
  "is_transient f =
     (f = InternalServerError \<or> f = ServiceUnavailable \<or> f = GatewayTimeout
      \<or> f = DeviceUnexpectedResponse)"

text \<open>
  Lines 87 to 113: the \<open>except\<close> clauses, tried in the order written. An exception that
  no clause names leaves the method as it is.
\<close>

definition vehicle_except ::
  "exc \<Rightarrow> vehicle_coordinator \<Rightarrow> (exc + pyval) \<times> vehicle_coordinator \<times> effect list" where
  "vehicle_except e s =
     (case e of
        Fleet f \<Rightarrow>
          if f = VehicleOffline then
            (case py_setitem (data s) (PStr ''state'') OFFLINE of
               Inl e' \<Rightarrow> (Inl e', s, [])
             | Inr d \<Rightarrow> (Inr d, s\<lparr>data := d\<rparr>, []))
          else if is_transient f then
            (let s' = s\<lparr>failures := failures s + 1\<rparr>
             in if failures s' > 2 then (Inl (UpdateFailed Multiple5xx), s', [])
                else (Inr (data s'), s', []))
          else if f = InvalidToken then (Inl ConfigEntryAuthFailed, s, [])
          else if f = SubscriptionRequired \<or> f = Forbidden \<or> f = LoginRequired then
            (Inl (UpdateFailed (MessageOf f)), s, [CreateIssue f])
          else (Inl (UpdateFailed (MessageOf f)), s, [])
      | TypeError \<Rightarrow> (Inl (UpdateFailed InvalidResponse), s, [])
      | _ \<Rightarrow> (Inl e, s, []))"

text \<open>Line 120: the test for an active vehicle, \<open>or\<close> evaluating from left to right.\<close>

definition vehicle_is_active :: "pyval \<Rightarrow> exc + bool" where
  "vehicle_is_active d =
     bind_e (py_getitem d (PStr ''charge_state'')) (\<lambda>cs.
     bind_e (py_get cs (PStr ''charging_state'') PNone) (\<lambda>c.
       if c = PStr ''Charging'' then Inr True
       else
         bind_e (py_getitem d (PStr ''vehicle_state'')) (\<lambda>vs.
         bind_e (py_get vs (PStr ''is_user_present'') PNone) (\<lambda>p.
           if truthy p then Inr True
           else
             bind_e (py_getitem d (PStr ''vehicle_state'')) (\<lambda>vs'.
             bind_e (py_get vs' (PStr ''sentry_mode'') PNone) (\<lambda>m.
               Inr (truthy m)))))))"

text \<open>Lines 118 to 134: the polling cadence of a vehicle that cannot sleep by itself.\<close>

definition vehicle_cadence ::
  "vehicle_env \<Rightarrow> pyval \<Rightarrow> vehicle_coordinator \<Rightarrow> (exc + unit) \<times> vehicle_coordinator" where
  "vehicle_cadence env d s =
     (if pre2021 s then
        (case vehicle_is_active d of
           Inl e \<Rightarrow> (Inl e, s)
         | Inr active \<Rightarrow>
             if active then
               (Inr (), s\<lparr>last_active := now1 env, update_interval := VEHICLE_INTERVAL\<rparr>)
             else
               (let elapsed = now1 env - last_active s
                in if elapsed > minutes 20 then (Inr (), s\<lparr>last_active := now2 env\<rparr>)
                   else if elapsed > minutes 15 then
                     (Inr (), s\<lparr>update_interval := VEHICLE_WAIT\<rparr>)
                   else (Inr (), s)))
      else (Inr (), s))"

text \<open>
  \<open>TeslemetryVehicleDataCoordinator._async_update_data\<close>. The helper \<open>flatten\<close> of
  \<open>helpers.py\<close> is not among the sources and is a parameter. The result is what the
  method returns or raises, the coordinator after the call, and the effects of the call.
\<close>

definition vehicle_update_data ::
  "(pyval \<Rightarrow> exc + pyval) \<Rightarrow> vehicle_env \<Rightarrow> vehicle_coordinator
     \<Rightarrow> (exc + pyval) \<times> vehicle_coordinator \<times> effect list" where
  "vehicle_update_data flatten env s0 =
     (let s = s0\<lparr>update_interval := VEHICLE_INTERVAL\<rparr>
      in case vehicle_try env s of
           (Returned v, s1, tr) \<Rightarrow> (Inr v, s1, tr)
         | (Raised e, s1, tr) \<Rightarrow>
             (case vehicle_except e s1 of (r, s2, tr') \<Rightarrow> (r, s2, tr @ tr'))
         | (Fell d, s1, tr) \<Rightarrow>
             (let s2 = s1\<lparr>failures := 0\<rparr>;
                  tr2 = tr @ [BusFire ''teslemetry_vehicle_data'' d]
              in case vehicle_cadence env d s2 of
                   (Inl e, s3) \<Rightarrow> (Inl e, s3, tr2)
                 | (Inr u, s3) \<Rightarrow> (flatten d, s3\<lparr>updated_once := True\<rparr>, tr2)))"

text \<open>
  The three energy coordinators have the same \<open>try\<close> statement: the vendor call and the
  read of \<open>"response"\<close> from its result, then the same four \<open>except\<close> clauses in the same
  order (lines 159 to 171, 210 to 222 and 251 to 263).
\<close>

definition energy_try :: "exc + pyval \<Rightarrow> exc + pyval" where
  "energy_try api = bind_e api (\<lambda>response. py_getitem response (PStr ''response''))"

definition energy_except ::
  "exc \<Rightarrow> coordinator \<Rightarrow> (exc + pyval) \<times> coordinator" where
  "energy_except e s =
     (case e of
        Fleet f \<Rightarrow>
          if f = InvalidToken then (Inl ConfigEntryAuthFailed, s)
          else if is_transient f then
            (let s' = s\<lparr>failures := failures s + 1\<rparr>
             in if failures s' > 2 then (Inl (UpdateFailed Multiple5xx), s')
                else (Inr (data s'), s'))
          else (Inl (UpdateFailed (MessageOf f)), s)
      | TypeError \<Rightarrow> (Inl (UpdateFailed InvalidResponse), s)
      | _ \<Rightarrow> (Inl e, s))"

text \<open>
  Lines 181 to 183: the dictionary comprehension \<open>{wc["din"]: wc for wc in ...}\<close>,
  filling the new dictionary record by record.
\<close>

fun by_din :: "pyval list \<Rightarrow> pydict \<Rightarrow> exc + pydict" where
  "by_din [] acc = Inr acc"
| "by_din (wc # wcs) acc =
     (case py_getitem wc (PStr ''din'') of
        Inl e \<Rightarrow> Inl e
      | Inr k \<Rightarrow> if hashable k then by_din wcs (dict_store acc k wc) else Inl TypeError)"

text \<open>Lines 179 to 185.\<close>

definition convert_wall_connectors :: "pyval \<Rightarrow> exc + pyval" where
  "convert_wall_connectors d =
     bind_e (py_get d (PStr ''wall_connectors'') PNone) (\<lambda>w.
       if is_list w then
         bind_e (py_getitem d (PStr ''wall_connectors'')) (\<lambda>ws.
         bind_e (py_iter ws) (\<lambda>wcs.
         bind_e (by_din wcs []) (\<lambda>m.
           py_setitem d (PStr ''wall_connectors'') (PDict m))))
       else py_setitem d (PStr ''wall_connectors'') (PDict []))"

text \<open>
  \<open>TeslemetryEnergySiteLiveCoordinator._async_update_data\<close>; \<open>api\<close> is the outcome of
  \<open>api.live_status()\<close>.
\<close>

definition live_update_data ::
  "exc + pyval \<Rightarrow> coordinator \<Rightarrow> (exc + pyval) \<times> coordinator \<times> effect list" where
  "live_update_data api s =
     (case energy_try api of
        Inl e \<Rightarrow> (case energy_except e s of (r, s') \<Rightarrow> (r, s', [ApiLiveStatus]))
      | Inr d0 \<Rightarrow>
          (let d = (if \<not> is_dict d0 then PDict [] else d0)
           in (convert_wall_connectors d, s,
               [ApiLiveStatus, BusFire ''teslemetry_live_status'' d])))"

text \<open>
  \<open>TeslemetryEnergySiteInfoCoordinator._async_update_data\<close>; \<open>api\<close> is the outcome of
  \<open>api.site_info()\<close>.
\<close>

definition info_update_data ::
  "(pyval \<Rightarrow> exc + pyval) \<Rightarrow> exc + pyval \<Rightarrow> coordinator
     \<Rightarrow> (exc + pyval) \<times> coordinator \<times> effect list" where
  "info_update_data flatten api s =
     (case energy_try api of
        Inl e \<Rightarrow> (case energy_except e s of (r, s') \<Rightarrow> (r, s', [ApiSiteInfo]))
      | Inr d0 \<Rightarrow>
          (let d = (if \<not> is_dict d0 then PDict [] else d0)
           in (flatten d, s, [ApiSiteInfo, BusFire ''teslemetry_site_info'' d])))"

text \<open>
  Lines 270 to 273. The list \<open>ENERGY_HISTORY_FIELDS\<close> of \<open>const.py\<close> is not among the
  sources and is the parameter \<open>tracked\<close>. First the comprehension
  \<open>{key: 0 for key in ENERGY_HISTORY_FIELDS}\<close>, then the inner loop over the keys for one
  period, then the outer loop over the periods.
\<close>

fun zero_fields :: "string list \<Rightarrow> pydict \<Rightarrow> pydict" where
  "zero_fields [] acc = acc"
| "zero_fields (key # keys) acc = zero_fields keys (dict_store acc (PStr key) (PInt 0))"

fun add_period :: "float_ops \<Rightarrow> string list \<Rightarrow> pyval \<Rightarrow> pyval \<Rightarrow> exc + pyval" where
  "add_period fo [] period output = Inr output"
| "add_period fo (key # keys) period output =
     bind_e (py_getitem output (PStr key)) (\<lambda>cur.
     bind_e (py_get period (PStr key) (PInt 0)) (\<lambda>v.
     bind_e (py_add fo cur v) (\<lambda>total.
     bind_e (py_setitem output (PStr key) total) (\<lambda>output'.
       add_period fo keys period output'))))"

fun add_periods :: "float_ops \<Rightarrow> string list \<Rightarrow> pyval list \<Rightarrow> pyval \<Rightarrow> exc + pyval" where
  "add_periods fo tracked [] output = Inr output"
| "add_periods fo tracked (period # periods) output =
     bind_e (add_period fo tracked period output) (\<lambda>output'.
       add_periods fo tracked periods output')"

definition sum_time_series :: "float_ops \<Rightarrow> string list \<Rightarrow> pyval \<Rightarrow> exc + pyval" where
  "sum_time_series fo tracked d =
     bind_e (py_get d (PStr ''time_series'') (PList [])) (\<lambda>ts.
     bind_e (py_iter ts) (\<lambda>periods.
       add_periods fo tracked periods (PDict (zero_fields tracked []))))"

text \<open>
  \<open>TeslemetryEnergyHistoryCoordinator._async_update_data\<close>; \<open>api\<close> is the outcome of
  \<open>api.energy_history(TeslaEnergyPeriod.DAY)\<close>.
\<close>

definition history_update_data ::
  "float_ops \<Rightarrow> string list \<Rightarrow> exc + pyval \<Rightarrow> coordinator
     \<Rightarrow> (exc + pyval) \<times> coordinator \<times> effect list" where
  "history_update_data fo tracked api s =
     (case energy_try api of
        Inl e \<Rightarrow> (case energy_except e s of (r, s') \<Rightarrow> (r, s', [ApiEnergyHistory]))
      | Inr d0 \<Rightarrow>
          (let d = (if \<not> is_dict d0 then PDict [] else d0)
           in (sum_time_series fo tracked d, s, [ApiEnergyHistory])))"

section \<open>The entities (\<open>climate.py\<close>, \<open>update.py\<close>)\<close>

text \<open>
  An entity reads the snapshot of its coordinator (\<open>self.coordinator.data\<close>) under its
  own key (\<open>self.key\<close>) and holds the flag \<open>scoped\<close>.
\<close>

record entity =
  snapshot :: pyval
  key :: string
  scoped :: bool

text \<open>
  Modelled from the spec: the methods \<open>get\<close>, \<open>_value\<close>, \<open>raise_for_scope\<close>,
  \<open>wake_up_if_asleep\<close> and \<open>handle_command\<close> of the base class \<open>TeslemetryVehicleEntity\<close>,
  declared in \<open>entity.py\<close>, which is not among the sources. An entity reads its value from
  the coordinator's cached snapshot via a known key; a command method first verifies that
  the required authorization scope is held, else fails with an authorization error, then
  ensures the vehicle is not asleep, then issues the vendor command.
\<close>

definition entity_get :: "'a entity_scheme \<Rightarrow> string \<Rightarrow> pyval \<Rightarrow> exc + pyval" where
  "entity_get s k dflt = py_get (snapshot s) (PStr k) dflt"

definition entity_value :: "'a entity_scheme \<Rightarrow> exc + pyval" where
  "entity_value s = entity_get s (key s) PNone"

datatype CabinOverheatProtectionTemp = LOW | MEDIUM | HIGH

text \<open>The vendor commands the two climate entities build.\<close>

datatype command =
    SetTemps pyval pyval
  | SetCopTemp CabinOverheatProtectionTemp
  | AutoConditioningStart
  | AutoConditioningStop
  | SetCabinOverheatProtection bool bool

text \<open>
  What a command method does to the world, in order: a call of \<open>wake_up_if_asleep\<close>, a
  vendor command handed to \<open>handle_command\<close>, a call of \<open>async_write_ha_state\<close>.
\<close>

datatype action = WakeUpIfAsleep | Command command | WriteHaState

text \<open>
  What a command method receives from outside: whether waking the vehicle and sending a
  command fail, given the actions so far.
\<close>

record cmd_env =
  wake :: "action list \<Rightarrow> exc option"
  send :: "action list \<Rightarrow> command \<Rightarrow> exc option"

definition raise_for_scope :: "'a entity_scheme \<Rightarrow> exc + unit" where
  "raise_for_scope s =
     (if scoped s then Inr () else Inl (ServiceValidationError ''Missing required scope''))"

definition wake_up_if_asleep :: "cmd_env \<Rightarrow> action list \<Rightarrow> (exc + unit) \<times> action list" where
  "wake_up_if_asleep env tr =
     (case wake env tr of
        Some e \<Rightarrow> (Inl e, tr @ [WakeUpIfAsleep])
      | None \<Rightarrow> (Inr (), tr @ [WakeUpIfAsleep]))"

definition handle_command ::
  "cmd_env \<Rightarrow> command \<Rightarrow> action list \<Rightarrow> (exc + unit) \<times> action list" where
  "handle_command env c tr =
     (case send env tr c of
        Some e \<Rightarrow> (Inl e, tr @ [Command c])
      | None \<Rightarrow> (Inr (), tr @ [Command c]))"

text \<open>
  The three steps that open every command method: scope check, wake-up, vendor command.
\<close>

definition issue :: "cmd_env \<Rightarrow> 'a entity_scheme \<Rightarrow> command \<Rightarrow> action list
    \<Rightarrow> (exc + unit) \<times> action list" where
  "issue env s c tr =
     (case raise_for_scope s of
        Inl e \<Rightarrow> (Inl e, tr)
      | Inr u \<Rightarrow>
          (case wake_up_if_asleep env tr of
             (Inl e, tr1) \<Rightarrow> (Inl e, tr1)
           | (Inr u', tr1) \<Rightarrow> handle_command env c tr1))"

text \<open>
  The members of Home Assistant's string enumeration \<open>HVACMode\<close> that \<open>climate.py\<close> names,
  and the default temperature limits of lines 30 and 31.
\<close>

definition HVAC_OFF :: pyval where
  "HVAC_OFF = PStr ''off''"

definition HVAC_COOL :: pyval where
  "HVAC_COOL = PStr ''cool''"

definition HVAC_HEAT_COOL :: pyval where
  "HVAC_HEAT_COOL = PStr ''heat_cool''"

definition HVAC_FAN_ONLY :: pyval where
  "HVAC_FAN_ONLY = PStr ''fan_only''"

definition DEFAULT_MIN_TEMP :: pyval where
  "DEFAULT_MIN_TEMP = PInt 15"

definition DEFAULT_MAX_TEMP :: pyval where
  "DEFAULT_MAX_TEMP = PInt 28"

definition ATTR_TEMPERATURE :: string where
  "ATTR_TEMPERATURE = ''temperature''"

definition ATTR_HVAC_MODE :: string where
  "ATTR_HVAC_MODE = ''hvac_mode''"

text \<open>The attributes of both climate entities.\<close>

record climate_entity = entity +
  attr_hvac_mode :: pyval
  attr_current_temperature :: pyval
  attr_target_temperature :: pyval
  attr_fan_mode :: pyval
  attr_preset_mode :: pyval
  attr_min_temp :: pyval
  attr_max_temp :: pyval

text \<open>Keyword arguments: the names given, with their values.\<close>

type_synonym kwargs = "(string \<times> pyval) list"

text \<open>\<open>kwargs[name]\<close>\<close>

definition kwarg :: "kwargs \<Rightarrow> string \<Rightarrow> exc + pyval" where
  "kwarg kw name = (case map_of kw name of None \<Rightarrow> Inl KeyError | Some v \<Rightarrow> Inr v)"

text \<open>\<open>TeslemetryClimateEntity._async_update_attrs\<close>, lines 107 to 129.\<close>

definition climate_update_attrs :: "climate_entity \<Rightarrow> (exc + unit) \<times> climate_entity" where
  "climate_update_attrs s0 =
     (case entity_get s0 ''climate_state_is_climate_on'' PNone of
        Inl e \<Rightarrow> (Inl e, s0)
      | Inr v \<Rightarrow>
     (let s1 = (if v = PNone then s0\<lparr>attr_hvac_mode := PNone\<rparr> else s0);
          s2 = (if truthy v then s1\<lparr>attr_hvac_mode := HVAC_HEAT_COOL\<rparr>
                else s1\<lparr>attr_hvac_mode := HVAC_OFF\<rparr>)
      in case entity_get s2 ''climate_state_inside_temp'' PNone of
        Inl e \<Rightarrow> (Inl e, s2)
      | Inr cur \<Rightarrow>
     (let s3 = s2\<lparr>attr_current_temperature := cur\<rparr>
      in case entity_get s3 (''climate_state_'' @ key s3 @ ''_setting'') PNone of
        Inl e \<Rightarrow> (Inl e, s3)
      | Inr tgt \<Rightarrow>
     (let s4 = s3\<lparr>attr_target_temperature := tgt\<rparr>
      in case entity_get s4 ''climate_state_climate_keeper_mode'' PNone of
        Inl e \<Rightarrow> (Inl e, s4)
      | Inr preset \<Rightarrow>
     (let s5 = s4\<lparr>attr_preset_mode := preset\<rparr>
      in case entity_get s5 ''climate_state_bioweapon_mode'' PNone of
        Inl e \<Rightarrow> (Inl e, s5)
      | Inr bio \<Rightarrow>
     (let s6 = (if truthy bio then s5\<lparr>attr_fan_mode := PStr ''bioweapon''\<rparr>
                else s5\<lparr>attr_fan_mode := PStr ''off''\<rparr>)
      in case entity_get s6 ''climate_state_min_avail_temp'' DEFAULT_MIN_TEMP of
        Inl e \<Rightarrow> (Inl e, s6)
      | Inr lo \<Rightarrow>
     (let s7 = s6\<lparr>attr_min_temp := lo\<rparr>
      in case entity_get s7 ''climate_state_max_avail_temp'' DEFAULT_MAX_TEMP of
        Inl e \<Rightarrow> (Inl e, s7)
      | Inr hi \<Rightarrow> (Inr (), s7\<lparr>attr_max_temp := hi\<rparr>))))))))"

text \<open>\<open>TeslemetryClimateEntity.async_turn_on\<close> and \<open>async_turn_off\<close>, lines 135 to 153.\<close>

definition climate_turn_on ::
  "cmd_env \<Rightarrow> climate_entity \<Rightarrow> action list \<Rightarrow> (exc + unit) \<times> climate_entity \<times> action list" where
  "climate_turn_on env s tr =
     (case issue env s AutoConditioningStart tr of
        (Inl e, tr1) \<Rightarrow> (Inl e, s, tr1)
      | (Inr u, tr1) \<Rightarrow> (Inr (), s\<lparr>attr_hvac_mode := HVAC_HEAT_COOL\<rparr>, tr1 @ [WriteHaState]))"

definition climate_turn_off ::
  "cmd_env \<Rightarrow> climate_entity \<Rightarrow> action list \<Rightarrow> (exc + unit) \<times> climate_entity \<times> action list" where
  "climate_turn_off env s tr =
     (case issue env s AutoConditioningStop tr of
        (Inl e, tr1) \<Rightarrow> (Inl e, s, tr1)
      | (Inr u, tr1) \<Rightarrow>
          (Inr (),
           s\<lparr>attr_hvac_mode := HVAC_OFF, attr_preset_mode := PStr ''off'',
             attr_fan_mode := PStr ''off''\<rparr>,
           tr1 @ [WriteHaState]))"

text \<open>\<open>TeslemetryClimateEntity.async_set_hvac_mode\<close>, lines 175 to 180.\<close>

definition climate_set_hvac_mode ::
  "cmd_env \<Rightarrow> pyval \<Rightarrow> climate_entity \<Rightarrow> action list
     \<Rightarrow> (exc + unit) \<times> climate_entity \<times> action list" where
  "climate_set_hvac_mode env hvac_mode s tr =
     (if hvac_mode = HVAC_OFF then climate_turn_off env s tr else climate_turn_on env s tr)"

text \<open>\<open>TeslemetryClimateEntity.async_set_temperature\<close>, lines 155 to 173.\<close>

definition climate_set_temperature ::
  "cmd_env \<Rightarrow> kwargs \<Rightarrow> climate_entity \<Rightarrow> action list
     \<Rightarrow> (exc + unit) \<times> climate_entity \<times> action list" where
  "climate_set_temperature env kw s tr =
     (case kwarg kw ATTR_TEMPERATURE of
        Inl e \<Rightarrow> (Inl e, s, tr)
      | Inr temp \<Rightarrow>
          (case (if truthy temp then
                   (case issue env s (SetTemps temp temp) tr of
                      (Inl e, tr1) \<Rightarrow> (Inl e, s, tr1)
                    | (Inr u, tr1) \<Rightarrow> (Inr (), s\<lparr>attr_target_temperature := temp\<rparr>, tr1))
                 else (Inr (), s, tr)) of
             (Inl e, s1, tr1) \<Rightarrow> (Inl e, s1, tr1)
           | (Inr u, s1, tr1) \<Rightarrow>
               (case kwarg kw ATTR_HVAC_MODE of
                  Inl e \<Rightarrow> (Inl e, s1, tr1)
                | Inr m \<Rightarrow>
                    if truthy m then climate_set_hvac_mode env m s1 tr1
                    else (Inr (), s1, tr1 @ [WriteHaState]))))"

text \<open>
  \<open>TeslemetryCabinOverheatProtectionEntity.async_set_hvac_mode\<close>, lines 323 to 341.
\<close>

definition cop_set_hvac_mode ::
  "cmd_env \<Rightarrow> pyval \<Rightarrow> climate_entity \<Rightarrow> action list
     \<Rightarrow> (exc + unit) \<times> climate_entity \<times> action list" where
  "cop_set_hvac_mode env hvac_mode s tr =
     (case raise_for_scope s of
        Inl e \<Rightarrow> (Inl e, s, tr)
      | Inr u \<Rightarrow>
          (case wake_up_if_asleep env tr of
             (Inl e, tr1) \<Rightarrow> (Inl e, s, tr1)
           | (Inr u', tr1) \<Rightarrow>
               (case (if hvac_mode = HVAC_OFF then
                        handle_command env (SetCabinOverheatProtection False False) tr1
                      else if hvac_mode = HVAC_COOL then
                        handle_command env (SetCabinOverheatProtection True False) tr1
                      else if hvac_mode = HVAC_FAN_ONLY then
                        handle_command env (SetCabinOverheatProtection True True) tr1
                      else (Inr (), tr1)) of
                  (Inl e, tr2) \<Rightarrow> (Inl e, s, tr2)
                | (Inr u'', tr2) \<Rightarrow>
                    (Inr (), s\<lparr>attr_hvac_mode := hvac_mode\<rparr>, tr2 @ [WriteHaState]))))"

text \<open>
  Lines 304 to 311: the level for a temperature; \<open>temp == 30\<close> holds for the integer 30
  and for the float 30.0.
\<close>

definition cop_level :: "pyval \<Rightarrow> exc + CabinOverheatProtectionTemp" where
  "cop_level temp =
     (if eq_int temp 30 then Inr LOW
      else if eq_int temp 35 then Inr MEDIUM
      else if eq_int temp 40 then Inr HIGH
      else Inl (ServiceValidationError ''Invalid temperature''))"

text \<open>
  \<open>TeslemetryCabinOverheatProtectionEntity.async_set_temperature\<close>, lines 300 to 321.
\<close>

definition cop_set_temperature ::
  "cmd_env \<Rightarrow> kwargs \<Rightarrow> climate_entity \<Rightarrow> action list
     \<Rightarrow> (exc + unit) \<times> climate_entity \<times> action list" where
  "cop_set_temperature env kw s tr =
     (case kwarg kw ATTR_TEMPERATURE of
        Inl e \<Rightarrow> (Inl e, s, tr)
      | Inr temp \<Rightarrow>
          (case (if truthy temp then
                   (case cop_level temp of
                      Inl e \<Rightarrow> (Inl e, s, tr)
                    | Inr cop_mode \<Rightarrow>
                        (case issue env s (SetCopTemp cop_mode) tr of
                           (Inl e, tr1) \<Rightarrow> (Inl e, s, tr1)
                         | (Inr u, tr1) \<Rightarrow>
                             (Inr (), s\<lparr>attr_target_temperature := temp\<rparr>, tr1)))
                 else (Inr (), s, tr)) of
             (Inl e, s1, tr1) \<Rightarrow> (Inl e, s1, tr1)
           | (Inr u, s1, tr1) \<Rightarrow>
               (case kwarg kw ATTR_HVAC_MODE of
                  Inl e \<Rightarrow> (Inl e, s1, tr1)
                | Inr m \<Rightarrow>
                    if truthy m then cop_set_hvac_mode env m s1 tr1
                    else (Inr (), s1, tr1 @ [WriteHaState]))))"

text \<open>
  The members of the string enumeration \<open>TeslemetryUpdateStatus\<close> that \<open>update.py\<close> names.
  The enumeration is declared in \<open>const.py\<close>, which is not among the sources: the string
  of each member is the parameter \<open>sv\<close> of the functions below.
\<close>

datatype TeslemetryUpdateStatus = AVAILABLE | SCHEDULED | INSTALLING | DOWNLOADING | WIFI_WAIT

text \<open>\<open>value in (m1, m2, ...)\<close> for members of a string enumeration.\<close>

definition status_in ::
  "(TeslemetryUpdateStatus \<Rightarrow> string) \<Rightarrow> pyval \<Rightarrow> TeslemetryUpdateStatus list \<Rightarrow> bool" where
  "status_in sv v ms = (v \<in> set (map (\<lambda>m. PStr (sv m)) ms))"

datatype UpdateEntityFeature = INSTALL | PROGRESS

record update_entity = entity +
  attr_supported_features :: "UpdateEntityFeature set"
  attr_installed_version :: pyval
  attr_latest_version :: pyval
  attr_in_progress :: pyval

text \<open>\<open>s.split(sep)\<close> for a separator of one character.\<close>

fun split_on :: "char \<Rightarrow> string \<Rightarrow> string list" where
  "split_on sep [] = [[]]"
| "split_on sep (c # cs) =
     (if c = sep then [] # split_on sep cs
      else (case split_on sep cs of
              [] \<Rightarrow> [[c]]
            | t # ts \<Rightarrow> (c # t) # ts))"

text \<open>
  Line 68, \<open>version.split(" ")[0]\<close>: only a string has the method, and the list it
  returns is indexed at 0.
\<close>

definition remove_build :: "pyval \<Rightarrow> exc + pyval" where
  "remove_build v =
     (case v of
        PStr raw \<Rightarrow> py_getitem (PList (map PStr (split_on (CHR '' '') raw))) (PInt 0)
      | _ \<Rightarrow> Inl AttributeError)"

text \<open>
  The test of lines 71 to 77 on the entity's value: an update is pending.
\<close>

definition update_pending :: "(TeslemetryUpdateStatus \<Rightarrow> string) \<Rightarrow> pyval \<Rightarrow> bool" where
  "update_pending sv v = status_in sv v [AVAILABLE, SCHEDULED, INSTALLING, DOWNLOADING, WIFI_WAIT]"

text \<open>\<open>TeslemetryUpdateEntity._async_update_attrs\<close>, lines 50 to 93.\<close>

definition update_update_attrs ::
  "(TeslemetryUpdateStatus \<Rightarrow> string) \<Rightarrow> update_entity \<Rightarrow> (exc + unit) \<times> update_entity" where
  "update_update_attrs sv s0 =
     (case (if scoped s0 then entity_value s0 else Inr PNone) of
        Inl e \<Rightarrow> (Inl e, s0)
      | Inr v0 \<Rightarrow>
     (let s1 = (if scoped s0 \<and> status_in sv v0 [AVAILABLE, SCHEDULED]
                then s0\<lparr>attr_supported_features := {PROGRESS, INSTALL}\<rparr>
                else s0\<lparr>attr_supported_features := {PROGRESS}\<rparr>)
      in case entity_get s1 ''vehicle_state_car_version'' PNone of
        Inl e \<Rightarrow> (Inl e, s1)
      | Inr raw \<Rightarrow>
     (let s2 = s1\<lparr>attr_installed_version := raw\<rparr>
      in case (if attr_installed_version s2 \<noteq> PNone
               then remove_build (attr_installed_version s2)
               else Inr (attr_installed_version s2)) of
        Inl e \<Rightarrow> (Inl e, s2)
      | Inr installed \<Rightarrow>
     (let s3 = s2\<lparr>attr_installed_version := installed\<rparr>
      in case entity_value s3 of
        Inl e \<Rightarrow> (Inl e, s3)
      | Inr v1 \<Rightarrow>
     (case (if update_pending sv v1
            then py_getitem (snapshot s3) (PStr ''vehicle_state_software_update_version'')
            else Inr (attr_installed_version s3)) of
        Inl e \<Rightarrow> (Inl e, s3)
      | Inr latest \<Rightarrow>
     (let s4 = s3\<lparr>attr_latest_version := latest\<rparr>
      in case entity_value s4 of
        Inl e \<Rightarrow> (Inl e, s4)
      | Inr v2 \<Rightarrow>
     (case (if status_in sv v2 [SCHEDULED, INSTALLING]
            then entity_get s4 ''vehicle_state_software_update_install_perc'' PNone
            else Inr (PBool False)) of
        Inl e \<Rightarrow> (Inl e, s4)
      | Inr prog \<Rightarrow> (Inr (), s4\<lparr>attr_in_progress := prog\<rparr>))))))))"

text \<open>
  The spec's wording of the installed version, for comparison with \<open>remove_build\<close>: the
  first whitespace-delimited token of a string. Whitespace is the space and the control
  characters tab, line feed, vertical tab, form feed and carriage return.
\<close>

definition is_whitespace :: "char \<Rightarrow> bool" where
  "is_whitespace c = (c \<in> {CHR '' '', CHR 0x09, CHR 0x0A, CHR 0x0B, CHR 0x0C, CHR 0x0D})"

definition spec_first_token :: "string \<Rightarrow> string" where
  "spec_first_token raw =
     takeWhile (\<lambda>c. \<not> is_whitespace c) (dropWhile is_whitespace raw)"

section \<open>The vehicle context (\<open>models.py\<close>)\<close>

text \<open>
  Objects with an identity live in a store and are known by their address. A lock is
  held or free.
\<close>

type_synonym addr = nat

record store =
  next_addr :: addr
  held :: "addr \<Rightarrow> bool"

text \<open>\<open>asyncio.Lock()\<close>: a new, free lock at a fresh address.\<close>

definition new_lock :: "store \<Rightarrow> addr \<times> store" where
  "new_lock h =
     (next_addr h, h\<lparr>next_addr := Suc (next_addr h), held := (held h)(next_addr h := False)\<rparr>)"

text \<open>
  Taking a lock without waiting: \<open>None\<close> when the lock is held, and the caller would
  have to wait for its release.
\<close>

definition acquire_nowait :: "addr \<Rightarrow> store \<Rightarrow> store option" where
  "acquire_nowait a h = (if held h a then None else Some (h\<lparr>held := (held h)(a := True)\<rparr>))"

text \<open>
  The class statement of \<open>TeslemetryVehicleData\<close>, lines 34 to 47. Its body runs once,
  when the module is loaded. The names with an annotation (\<open>api\<close>, \<open>coordinator\<close>,
  \<open>stream\<close>, \<open>vin\<close>, \<open>device\<close>, \<open>last_alert\<close>, \<open>last_error\<close>, \<open>remove_listeners\<close>) become
  the fields of the dataclass, which the generated \<open>__init__\<close> sets on each instance. The
  assignment \<open>wakelock = asyncio.Lock()\<close> of line 43 has no annotation, so \<open>wakelock\<close> is
  not a field: the lock is created when the body runs and stays an attribute of the class.
\<close>

record TeslemetryVehicleData_class =
  wakelock :: addr

definition define_TeslemetryVehicleData :: "store \<Rightarrow> TeslemetryVehicleData_class \<times> store" where
  "define_TeslemetryVehicleData h =
     (case new_lock h of (a, h') \<Rightarrow> (\<lparr>wakelock = a\<rparr>, h'))"

text \<open>
  An instance: its class and its own fields. The vendor handle, the coordinator, the
  stream and the device are known by their addresses.
\<close>

record TeslemetryVehicleData =
  class_of :: TeslemetryVehicleData_class
  vd_api :: addr
  vd_coordinator :: addr
  vd_stream :: addr
  vin :: string
  vd_device :: addr
  last_alert :: string
  last_error :: string

text \<open>The generated \<open>__init__\<close>: it allocates no lock.\<close>

definition new_TeslemetryVehicleData ::
  "TeslemetryVehicleData_class \<Rightarrow> addr \<Rightarrow> addr \<Rightarrow> addr \<Rightarrow> string \<Rightarrow> addr \<Rightarrow> string \<Rightarrow> string
     \<Rightarrow> TeslemetryVehicleData" where
  "new_TeslemetryVehicleData cls a c st v dev alert err =
     \<lparr>class_of = cls, vd_api = a, vd_coordinator = c, vd_stream = st, vin = v,
      vd_device = dev, last_alert = alert, last_error = err\<rparr>"

text \<open>
  \<open>vehicle.wakelock\<close>: the instance has no attribute of that name, so the lookup goes on
  to the class.
\<close>

definition get_wakelock :: "TeslemetryVehicleData \<Rightarrow> addr" where
  "get_wakelock v = wakelock (class_of v)"

section \<open>The sum of a field over the records of a time series\<close>

text \<open>
  The time-bucket records of a response: what the loop of line 271 visits. One step of
  the accumulation, \<open>acc + period.get(key, 0)\<close>. And the sum of one field over the
  records as the words of the specification have it, a record without the field
  counting 0: the records are taken from left to right, starting from the integer 0,
  every step one \<open>+\<close> of the interpreter.
\<close>

definition time_series_records :: "pyval \<Rightarrow> exc + pyval list" where
  "time_series_records d0 =
     bind_e (py_get (if \<not> is_dict d0 then PDict [] else d0) (PStr ''time_series'') (PList []))
       py_iter"

definition add_field :: "float_ops \<Rightarrow> pyval \<Rightarrow> pyval \<Rightarrow> string \<Rightarrow> exc + pyval" where
  "add_field fo acc period k =
     bind_e (py_get period (PStr k) (PInt 0)) (\<lambda>v. py_add fo acc v)"

fun sum_field :: "float_ops \<Rightarrow> string \<Rightarrow> pyval \<Rightarrow> pyval list \<Rightarrow> exc + pyval" where
  "sum_field fo k acc [] = Inr acc"
| "sum_field fo k acc (period # periods) =
     bind_e (add_field fo acc period k) (\<lambda>acc'. sum_field fo k acc' periods)"

section \<open>Sample inputs\<close>

text \<open>Concrete inputs at which the theorems below are evaluated.\<close>

text \<open>
  Float operations for the sample inputs: the exact sum, which is the sum of the machine
  for the floats used below, whose sums need no rounding.
\<close>

fun exact_add :: "pyfloat \<Rightarrow> pyfloat \<Rightarrow> pyfloat" where
  "exact_add (Finite x) (Finite y) = Finite (x + y)"
| "exact_add NaN y = NaN"
| "exact_add x NaN = NaN"
| "exact_add PosInf NegInf = NaN"
| "exact_add NegInf PosInf = NaN"
| "exact_add PosInf y = PosInf"
| "exact_add x PosInf = PosInf"
| "exact_add NegInf y = NegInf"
| "exact_add x NegInf = NegInf"

definition sample_float_ops :: float_ops where
  "sample_float_ops =
     \<lparr>float_add = exact_add, float_of_int = (\<lambda>i. Some (Finite (of_int i)))\<rparr>"

definition sample_climate :: climate_entity where
  "sample_climate =
     \<lparr>snapshot = PDict [], key = ''driver_temp'', scoped = True,
      attr_hvac_mode = PNone, attr_current_temperature = PNone,
      attr_target_temperature = PNone, attr_fan_mode = PNone, attr_preset_mode = PNone,
      attr_min_temp = PNone, attr_max_temp = PNone\<rparr>"

text \<open>A vehicle that wakes and accepts every command.\<close>

definition sample_cmd_env :: cmd_env where
  "sample_cmd_env = \<lparr>wake = (\<lambda>tr. None), send = (\<lambda>tr c. None)\<rparr>"

text \<open>A store in which nothing has been allocated yet.\<close>

definition empty_store :: store where
  "empty_store = \<lparr>next_addr = 0, held = (\<lambda>a. False)\<rparr>"

text \<open>
  Strings for the members of \<open>TeslemetryUpdateStatus\<close>, and an update entity whose vehicle
  reports a car version with a build suffix and no pending update.
\<close>

fun sample_sv :: "TeslemetryUpdateStatus \<Rightarrow> string" where
  "sample_sv AVAILABLE = ''available''"
| "sample_sv SCHEDULED = ''scheduled''"
| "sample_sv INSTALLING = ''installing''"
| "sample_sv DOWNLOADING = ''downloading''"
| "sample_sv WIFI_WAIT = ''downloading_wifi_wait''"

definition sample_update :: "pydict \<Rightarrow> update_entity" where
  "sample_update d =
     \<lparr>snapshot = PDict d, key = ''vehicle_state_software_update_status'', scoped = True,
      attr_supported_features = {PROGRESS}, attr_installed_version = PNone,
      attr_latest_version = PNone, attr_in_progress = PNone\<rparr>"

text \<open>
  A vehicle coordinator with a cached state, a failure count and the flag of its vehicle;
  what a call receives; a stand-in for \<open>flatten\<close>; the response of an idle vehicle; an
  energy coordinator that has not fetched yet.
\<close>

definition sample_vehicle :: "pyval \<Rightarrow> int \<Rightarrow> bool \<Rightarrow> vehicle_coordinator" where
  "sample_vehicle st n p =
     \<lparr>data = PDict [(PStr ''state'', st), (PStr ''vin'', PStr ''5YJ3E1EA7KF000001'')],
      update_interval = VEHICLE_INTERVAL, failures = n, last_active = 0,
      updated_once = False, pre2021 = p\<rparr>"

definition sample_env :: "exc + pyval \<Rightarrow> exc + pyval \<Rightarrow> int \<Rightarrow> vehicle_env" where
  "sample_env v vd t = \<lparr>vehicle = v, vehicle_data = vd, now1 = t, now2 = t + 1\<rparr>"

definition sample_flatten :: "pyval \<Rightarrow> exc + pyval" where
  "sample_flatten d = Inr d"

definition sample_idle :: pyval where
  "sample_idle =
     PDict [(PStr ''charge_state'', PDict [(PStr ''charging_state'', PStr ''Stopped'')]),
            (PStr ''vehicle_state'',
             PDict [(PStr ''is_user_present'', PBool False),
                    (PStr ''sentry_mode'', PBool False)])]"

definition sample_response :: "pyval \<Rightarrow> exc + pyval" where
  "sample_response d = Inr (PDict [(PStr ''response'', d)])"

definition sample_coordinator :: "int \<Rightarrow> coordinator" where
  "sample_coordinator n = \<lparr>data = PNone, update_interval = seconds 30, failures = n\<rparr>"

section \<open>Dictionaries\<close>

lemma key_eq_refl [simp]: "key_eq k k = (k \<noteq> PFloat NaN)"
  by (cases k rule: real_of.cases) (simp_all add: key_eq_def)

lemma key_eq_PStr [simp]:
  "key_eq (PStr a) k = (k = PStr a)" "key_eq k (PStr a) = (k = PStr a)"
  by (cases k rule: real_of.cases; auto simp: key_eq_def)+

lemma key_eq_sym: "key_eq a b = key_eq b a"
  by (auto simp: key_eq_def split: option.splits)

lemma key_eq_trans: "key_eq a b \<Longrightarrow> key_eq b c \<Longrightarrow> key_eq a c"
  by (auto simp: key_eq_def split: option.splits)

lemma dict_lookup_store_same [simp]:
  "k \<noteq> PFloat NaN \<Longrightarrow> dict_lookup (dict_store d k v) k = Some v"
  by (induction d) auto

lemma dict_lookup_store_other:
  "\<not> key_eq k k' \<Longrightarrow> dict_lookup (dict_store d k v) k' = dict_lookup d k'"
proof (induction d)
  case Nil
  then show ?case by (auto simp: key_eq_sym)
next
  case (Cons p d)
  obtain a b where p: "p = (a, b)" by (cases p)
  show ?case
  proof (cases "key_eq a k")
    case True
    with Cons.prems have "\<not> key_eq a k'"
      using key_eq_trans key_eq_sym by blast
    with True p show ?thesis by simp
  next
    case False
    with Cons p show ?thesis by simp
  qed
qed

lemma dict_store_keys:
  "dict_lookup d k \<noteq> None \<Longrightarrow> map fst (dict_store d k v) = map fst d"
  by (induction d) auto

lemma entity_get_dict:
  "snapshot s = PDict d \<Longrightarrow>
   entity_get s k dflt = Inr (case dict_lookup d (PStr k) of None \<Rightarrow> dflt | Some v \<Rightarrow> v)"
  by (simp add: entity_get_def split: option.splits)

lemma issue_ok:
  "scoped s \<Longrightarrow> wake env tr = None \<Longrightarrow> send env (tr @ [WakeUpIfAsleep]) c = None \<Longrightarrow>
   issue env s c tr = (Inr (), tr @ [WakeUpIfAsleep, Command c])"
  by (simp add: issue_def raise_for_scope_def wake_up_if_asleep_def handle_command_def)

lemma cop_set_hvac_mode_frame:
  "\<exists>x. snd (snd (cop_set_hvac_mode env m s tr)) = tr @ x"
  "attr_target_temperature (fst (snd (cop_set_hvac_mode env m s tr))) = attr_target_temperature s"
  by (auto simp: cop_set_hvac_mode_def raise_for_scope_def wake_up_if_asleep_def
        handle_command_def split: sum.splits option.splits prod.splits if_splits)

lemma climate_set_hvac_mode_frame:
  "\<exists>x. snd (snd (climate_set_hvac_mode env m s tr)) = tr @ x"
  "attr_target_temperature (fst (snd (climate_set_hvac_mode env m s tr))) = attr_target_temperature s"
  by (auto simp: climate_set_hvac_mode_def climate_turn_on_def climate_turn_off_def issue_def
        raise_for_scope_def wake_up_if_asleep_def handle_command_def
        split: sum.splits option.splits prod.splits if_splits)

lemma kwarg_simps:
  "map_of kw name = None \<Longrightarrow> kwarg kw name = Inl KeyError"
  "map_of kw name = Some v \<Longrightarrow> kwarg kw name = Inr v"
  by (simp_all add: kwarg_def)

lemma truthy_number: "is_number v \<Longrightarrow> truthy v = (real_of v \<noteq> Some 0)"
  by (cases v rule: real_of.cases) simp_all

lemma cop_level_cases:
  "cop_level temp =
     (if real_of temp = Some 30 then Inr LOW
      else if real_of temp = Some 35 then Inr MEDIUM
      else if real_of temp = Some 40 then Inr HIGH
      else Inl (ServiceValidationError ''Invalid temperature''))"
  by (simp add: cop_level_def eq_int_def)

lemma issue_cases:
  "issue env s c tr =
     (if \<not> scoped s then (Inl (ServiceValidationError ''Missing required scope''), tr)
      else case wake env tr of
             Some e \<Rightarrow> (Inl e, tr @ [WakeUpIfAsleep])
           | None \<Rightarrow>
               (case send env (tr @ [WakeUpIfAsleep]) c of
                  Some e \<Rightarrow> (Inl e, tr @ [WakeUpIfAsleep, Command c])
                | None \<Rightarrow> (Inr (), tr @ [WakeUpIfAsleep, Command c])))"
  by (simp add: issue_def raise_for_scope_def wake_up_if_asleep_def handle_command_def
        split: option.splits)

lemma cop_set_temperature_rejects:
  assumes "map_of kw ATTR_TEMPERATURE = Some temp" "truthy temp" "cop_level temp = Inl e"
  shows "cop_set_temperature env kw s tr = (Inl e, s, tr)"
  using assms by (simp add: cop_set_temperature_def kwarg_simps)

lemma take_prefix: "length a = n \<Longrightarrow> take n (a @ x) = a"
  by simp

lemma cop_set_temperature_accepts_eq:
  assumes "map_of kw ATTR_TEMPERATURE = Some temp" "truthy temp"
    and "cop_level temp = Inr lvl"
    and "scoped s" "wake env tr = None" "send env (tr @ [WakeUpIfAsleep]) (SetCopTemp lvl) = None"
  shows "cop_set_temperature env kw s tr =
           (case kwarg kw ATTR_HVAC_MODE of
              Inl e \<Rightarrow> (Inl e, s\<lparr>attr_target_temperature := temp\<rparr>,
                        tr @ [WakeUpIfAsleep, Command (SetCopTemp lvl)])
            | Inr m \<Rightarrow>
                if truthy m
                then cop_set_hvac_mode env m (s\<lparr>attr_target_temperature := temp\<rparr>)
                       (tr @ [WakeUpIfAsleep, Command (SetCopTemp lvl)])
                else (Inr (), s\<lparr>attr_target_temperature := temp\<rparr>,
                      tr @ [WakeUpIfAsleep, Command (SetCopTemp lvl)] @ [WriteHaState]))"
  using assms by (simp add: cop_set_temperature_def kwarg_simps issue_ok split: sum.splits)

lemma cop_set_temperature_accepts:
  assumes "map_of kw ATTR_TEMPERATURE = Some temp" "truthy temp"
    and "cop_level temp = Inr lvl"
    and "scoped s" "wake env tr = None" "send env (tr @ [WakeUpIfAsleep]) (SetCopTemp lvl) = None"
  shows "take (length tr + 2) (snd (snd (cop_set_temperature env kw s tr)))
           = tr @ [WakeUpIfAsleep, Command (SetCopTemp lvl)]
       \<and> attr_target_temperature (fst (snd (cop_set_temperature env kw s tr))) = temp"
proof -
  let ?s1 = "s\<lparr>attr_target_temperature := temp\<rparr>"
  let ?tr1 = "tr @ [WakeUpIfAsleep, Command (SetCopTemp lvl)]"
  have len: "length ?tr1 = length tr + 2" by simp
  show ?thesis
  proof (cases "kwarg kw ATTR_HVAC_MODE")
    case (Inl e)
    then show ?thesis
      by (simp add: cop_set_temperature_accepts_eq [OF assms])
  next
    case (Inr m)
    show ?thesis
    proof (cases "truthy m")
      case True
      obtain x where x: "snd (snd (cop_set_hvac_mode env m ?s1 ?tr1)) = ?tr1 @ x"
        using cop_set_hvac_mode_frame(1) by blast
      have "take (length tr + 2) (?tr1 @ x) = ?tr1"
        using len by (rule take_prefix)
      with x Inr True show ?thesis
        by (simp add: cop_set_temperature_accepts_eq [OF assms] cop_set_hvac_mode_frame(2))
    next
      case False
      with Inr show ?thesis
        by (simp add: cop_set_temperature_accepts_eq [OF assms])
    qed
  qed
qed

text \<open>
  With a temperature that is true as a truth value and no HVAC-mode key, the call ends
  where the scope check, the wake-up or the command fails, and with the \<open>KeyError\<close> when
  none of them does.
\<close>

lemma climate_set_temperature_no_mode:
  assumes "map_of kw ATTR_TEMPERATURE = Some temp" "truthy temp"
    and "map_of kw ATTR_HVAC_MODE = None"
  shows "climate_set_temperature env kw s tr =
     (if \<not> scoped s then (Inl (ServiceValidationError ''Missing required scope''), s, tr)
      else case wake env tr of
             Some e \<Rightarrow> (Inl e, s, tr @ [WakeUpIfAsleep])
           | None \<Rightarrow>
               (case send env (tr @ [WakeUpIfAsleep]) (SetTemps temp temp) of
                  Some e \<Rightarrow> (Inl e, s, tr @ [WakeUpIfAsleep, Command (SetTemps temp temp)])
                | None \<Rightarrow> (Inl KeyError, s\<lparr>attr_target_temperature := temp\<rparr>,
                           tr @ [WakeUpIfAsleep, Command (SetTemps temp temp)])))"
  using assms
  by (simp add: climate_set_temperature_def kwarg_simps issue_cases split: option.splits)

lemma cop_set_temperature_no_mode:
  assumes "map_of kw ATTR_TEMPERATURE = Some temp" "truthy temp"
    and "map_of kw ATTR_HVAC_MODE = None" and "cop_level temp = Inr lvl"
  shows "cop_set_temperature env kw s tr =
     (if \<not> scoped s then (Inl (ServiceValidationError ''Missing required scope''), s, tr)
      else case wake env tr of
             Some e \<Rightarrow> (Inl e, s, tr @ [WakeUpIfAsleep])
           | None \<Rightarrow>
               (case send env (tr @ [WakeUpIfAsleep]) (SetCopTemp lvl) of
                  Some e \<Rightarrow> (Inl e, s, tr @ [WakeUpIfAsleep, Command (SetCopTemp lvl)])
                | None \<Rightarrow> (Inl KeyError, s\<lparr>attr_target_temperature := temp\<rparr>,
                           tr @ [WakeUpIfAsleep, Command (SetCopTemp lvl)])))"
  using assms
  by (simp add: cop_set_temperature_def kwarg_simps issue_cases split: option.splits)

section \<open>The climate entity's attribute refresh\<close>

text \<open>
  Claim C9. In the climate entity's attribute refresh, when the snapshot's climate-on value
  is absent or \<open>None\<close>, the resulting HVAC mode is OFF: the assignment of \<open>None\<close> in line 111
  is overwritten by the \<open>else\<close> branch of the test that follows it. For every snapshot
  that is a dictionary the refresh completes, and the HVAC mode is not \<open>None\<close> after it.
\<close>

theorem climate_update_attrs_hvac_mode:
  assumes "snapshot s = PDict d"
  shows "fst (climate_update_attrs s) = Inr ()
       \<and> attr_hvac_mode (snd (climate_update_attrs s)) \<noteq> PNone
       \<and> (dict_lookup d (PStr ''climate_state_is_climate_on'') = None
            \<or> dict_lookup d (PStr ''climate_state_is_climate_on'') = Some PNone
          \<longrightarrow> attr_hvac_mode (snd (climate_update_attrs s)) = HVAC_OFF)"
  using assms
  by (auto simp: climate_update_attrs_def entity_get_dict Let_def HVAC_OFF_def HVAC_HEAT_COOL_def)

theorem climate_update_attrs_hvac_mode_witness:
  "fst (climate_update_attrs sample_climate) = Inr ()
   \<and> attr_hvac_mode (snd (climate_update_attrs sample_climate)) = HVAC_OFF"
  using climate_update_attrs_hvac_mode [of sample_climate "[]"]
  by (simp add: sample_climate_def)

section \<open>Setting the temperature of the climate entities\<close>

text \<open>
  Claim C4, as amended. A call of the cabin-overheat-protection entity's
  \<open>async_set_temperature\<close> with a number, an integer or a float, other than zero as the
  temperature: a number that equals none of 30, 35 and 40 is rejected with the
  validation error, with no action taken and no attribute changed; for a number that
  equals 30, 35 or 40, when the scope is held and the wake-up and the command succeed,
  the method first wakes the vehicle and issues \<open>set_cop_temp\<close> with \<open>LOW\<close>, \<open>MEDIUM\<close> and
  \<open>HIGH\<close> respectively, and the target temperature is the given value afterwards.
\<close>

theorem cop_set_temperature_levels:
  assumes "map_of kw ATTR_TEMPERATURE = Some temp" and "is_number temp"
    and "real_of temp \<noteq> Some 0"
  shows "(real_of temp \<noteq> Some 30 \<and> real_of temp \<noteq> Some 35 \<and> real_of temp \<noteq> Some 40 \<longrightarrow>
            cop_set_temperature env kw s tr =
              (Inl (ServiceValidationError ''Invalid temperature''), s, tr))
       \<and> ((real_of temp = Some 30 \<and> lvl = LOW \<or> real_of temp = Some 35 \<and> lvl = MEDIUM
              \<or> real_of temp = Some 40 \<and> lvl = HIGH)
            \<and> scoped s \<and> wake env tr = None
            \<and> send env (tr @ [WakeUpIfAsleep]) (SetCopTemp lvl) = None \<longrightarrow>
            take (length tr + 2) (snd (snd (cop_set_temperature env kw s tr)))
              = tr @ [WakeUpIfAsleep, Command (SetCopTemp lvl)]
            \<and> attr_target_temperature (fst (snd (cop_set_temperature env kw s tr))) = temp)"
proof -
  from assms have tr: "truthy temp" by (simp add: truthy_number)
  have rej: "cop_set_temperature env kw s tr =
        (Inl (ServiceValidationError ''Invalid temperature''), s, tr)"
    if "real_of temp \<noteq> Some 30 \<and> real_of temp \<noteq> Some 35 \<and> real_of temp \<noteq> Some 40"
  proof -
    from that have "cop_level temp = Inl (ServiceValidationError ''Invalid temperature'')"
      by (simp add: cop_level_cases)
    from cop_set_temperature_rejects [OF assms(1) tr this] show ?thesis .
  qed
  have acc: "take (length tr + 2) (snd (snd (cop_set_temperature env kw s tr)))
        = tr @ [WakeUpIfAsleep, Command (SetCopTemp lvl)]
      \<and> attr_target_temperature (fst (snd (cop_set_temperature env kw s tr))) = temp"
    if h: "(real_of temp = Some 30 \<and> lvl = LOW \<or> real_of temp = Some 35 \<and> lvl = MEDIUM
          \<or> real_of temp = Some 40 \<and> lvl = HIGH)
        \<and> scoped s \<and> wake env tr = None
        \<and> send env (tr @ [WakeUpIfAsleep]) (SetCopTemp lvl) = None"
  proof -
    from h have lv: "cop_level temp = Inr lvl" by (auto simp: cop_level_cases)
    from h have a: "scoped s" and b: "wake env tr = None"
      and c: "send env (tr @ [WakeUpIfAsleep]) (SetCopTemp lvl) = None" by simp_all
    from cop_set_temperature_accepts [OF assms(1) tr lv a b c] show ?thesis .
  qed
  from rej acc show ?thesis by blast
qed

theorem cop_set_temperature_levels_witness:
  "cop_set_temperature sample_cmd_env [(''temperature'', PInt 31), (''hvac_mode'', PNone)]
       sample_climate []
     = (Inl (ServiceValidationError ''Invalid temperature''), sample_climate, [])
   \<and> cop_set_temperature sample_cmd_env
       [(''temperature'', PFloat (Finite (61 / 2))), (''hvac_mode'', PNone)] sample_climate []
     = (Inl (ServiceValidationError ''Invalid temperature''), sample_climate, [])
   \<and> take 2 (snd (snd (cop_set_temperature sample_cmd_env
         [(''temperature'', PInt 35), (''hvac_mode'', PNone)] sample_climate [])))
     = [WakeUpIfAsleep, Command (SetCopTemp MEDIUM)]
   \<and> attr_target_temperature (fst (snd (cop_set_temperature sample_cmd_env
         [(''temperature'', PInt 35), (''hvac_mode'', PNone)] sample_climate []))) = PInt 35
   \<and> take 2 (snd (snd (cop_set_temperature sample_cmd_env
         [(''temperature'', PFloat (Finite 30)), (''hvac_mode'', PNone)] sample_climate [])))
     = [WakeUpIfAsleep, Command (SetCopTemp LOW)]
   \<and> attr_target_temperature (fst (snd (cop_set_temperature sample_cmd_env
         [(''temperature'', PFloat (Finite 30)), (''hvac_mode'', PNone)] sample_climate [])))
     = PFloat (Finite 30)"
  using cop_set_temperature_levels [where kw = "[(''temperature'', PInt 31), (''hvac_mode'', PNone)]"
          and temp = "PInt 31" and env = sample_cmd_env and s = sample_climate
          and tr = "[]" and lvl = LOW]
        cop_set_temperature_levels [where
          kw = "[(''temperature'', PFloat (Finite (61 / 2))), (''hvac_mode'', PNone)]"
          and temp = "PFloat (Finite (61 / 2))" and env = sample_cmd_env and s = sample_climate
          and tr = "[]" and lvl = LOW]
        cop_set_temperature_levels [where kw = "[(''temperature'', PInt 35), (''hvac_mode'', PNone)]"
          and temp = "PInt 35" and env = sample_cmd_env and s = sample_climate
          and tr = "[]" and lvl = MEDIUM]
        cop_set_temperature_levels [where
          kw = "[(''temperature'', PFloat (Finite 30)), (''hvac_mode'', PNone)]"
          and temp = "PFloat (Finite 30)" and env = sample_cmd_env and s = sample_climate
          and tr = "[]" and lvl = LOW]
  by (simp add: ATTR_TEMPERATURE_def sample_cmd_env_def sample_climate_def numeral_2_eq_2)

text \<open>
  The claim as stated fails at the temperature 0: the test \<open>if temp := kwargs[...]\<close> of
  line 303 is false for it, so the method validates nothing, raises nothing and goes on
  to the HVAC mode.
\<close>

theorem cop_set_temperature_zero_not_rejected:
  "cop_set_temperature sample_cmd_env [(''temperature'', PInt 0), (''hvac_mode'', PNone)]
       sample_climate []
     = (Inr (), sample_climate, [WriteHaState])"
  by (simp add: cop_set_temperature_def kwarg_def ATTR_TEMPERATURE_def ATTR_HVAC_MODE_def)

text \<open>
  Claim C10, as amended. In both climate entities a missing temperature key raises
  \<open>KeyError\<close> before anything else happens. With the temperature key present and the
  HVAC-mode key missing, the temperature part runs first. A temperature that is false as
  a truth value gives the \<open>KeyError\<close> at once. For any other temperature the
  cabin-overheat entity raises its validation error when the temperature is none of 30,
  35 and 40, with nothing done; otherwise either entity raises the scope error when the
  scope is missing, with nothing done, the error of the wake-up when that fails, the
  error of the command when that fails, and only when all three succeed the \<open>KeyError\<close>,
  after the vendor command (\<open>set_temps\<close>, \<open>set_cop_temp\<close>) has been issued and the target
  temperature stored.
\<close>

theorem set_temperature_missing_key:
  "(map_of kw ATTR_TEMPERATURE = None \<longrightarrow>
      climate_set_temperature env kw s tr = (Inl KeyError, s, tr)
      \<and> cop_set_temperature env kw s tr = (Inl KeyError, s, tr))
   \<and> (map_of kw ATTR_TEMPERATURE = Some temp \<and> map_of kw ATTR_HVAC_MODE = None
        \<and> \<not> truthy temp \<longrightarrow>
      climate_set_temperature env kw s tr = (Inl KeyError, s, tr)
      \<and> cop_set_temperature env kw s tr = (Inl KeyError, s, tr))
   \<and> (map_of kw ATTR_TEMPERATURE = Some temp \<and> map_of kw ATTR_HVAC_MODE = None
        \<and> truthy temp \<longrightarrow>
      climate_set_temperature env kw s tr =
        (if \<not> scoped s then (Inl (ServiceValidationError ''Missing required scope''), s, tr)
         else case wake env tr of
                Some e \<Rightarrow> (Inl e, s, tr @ [WakeUpIfAsleep])
              | None \<Rightarrow>
                  (case send env (tr @ [WakeUpIfAsleep]) (SetTemps temp temp) of
                     Some e \<Rightarrow>
                       (Inl e, s, tr @ [WakeUpIfAsleep, Command (SetTemps temp temp)])
                   | None \<Rightarrow>
                       (Inl KeyError, s\<lparr>attr_target_temperature := temp\<rparr>,
                        tr @ [WakeUpIfAsleep, Command (SetTemps temp temp)]))))
   \<and> (map_of kw ATTR_TEMPERATURE = Some temp \<and> map_of kw ATTR_HVAC_MODE = None
        \<and> truthy temp \<and> cop_level temp = Inl err \<longrightarrow>
      cop_set_temperature env kw s tr = (Inl err, s, tr)
      \<and> err = ServiceValidationError ''Invalid temperature'')
   \<and> (map_of kw ATTR_TEMPERATURE = Some temp \<and> map_of kw ATTR_HVAC_MODE = None
        \<and> truthy temp \<and> cop_level temp = Inr lvl \<longrightarrow>
      cop_set_temperature env kw s tr =
        (if \<not> scoped s then (Inl (ServiceValidationError ''Missing required scope''), s, tr)
         else case wake env tr of
                Some e \<Rightarrow> (Inl e, s, tr @ [WakeUpIfAsleep])
              | None \<Rightarrow>
                  (case send env (tr @ [WakeUpIfAsleep]) (SetCopTemp lvl) of
                     Some e \<Rightarrow>
                       (Inl e, s, tr @ [WakeUpIfAsleep, Command (SetCopTemp lvl)])
                   | None \<Rightarrow>
                       (Inl KeyError, s\<lparr>attr_target_temperature := temp\<rparr>,
                        tr @ [WakeUpIfAsleep, Command (SetCopTemp lvl)]))))"
proof (intro conjI impI)
  assume "map_of kw ATTR_TEMPERATURE = None"
  then show "climate_set_temperature env kw s tr = (Inl KeyError, s, tr)"
    and "cop_set_temperature env kw s tr = (Inl KeyError, s, tr)"
    by (simp_all add: climate_set_temperature_def cop_set_temperature_def kwarg_simps)
next
  assume "map_of kw ATTR_TEMPERATURE = Some temp \<and> map_of kw ATTR_HVAC_MODE = None
        \<and> \<not> truthy temp"
  then show "climate_set_temperature env kw s tr = (Inl KeyError, s, tr)"
    and "cop_set_temperature env kw s tr = (Inl KeyError, s, tr)"
    by (simp_all add: climate_set_temperature_def cop_set_temperature_def kwarg_simps)
next
  assume "map_of kw ATTR_TEMPERATURE = Some temp \<and> map_of kw ATTR_HVAC_MODE = None
        \<and> truthy temp"
  then have k: "map_of kw ATTR_TEMPERATURE = Some temp" and t: "truthy temp"
    and m: "map_of kw ATTR_HVAC_MODE = None" by simp_all
  show "climate_set_temperature env kw s tr =
        (if \<not> scoped s then (Inl (ServiceValidationError ''Missing required scope''), s, tr)
         else case wake env tr of
                Some e \<Rightarrow> (Inl e, s, tr @ [WakeUpIfAsleep])
              | None \<Rightarrow>
                  (case send env (tr @ [WakeUpIfAsleep]) (SetTemps temp temp) of
                     Some e \<Rightarrow>
                       (Inl e, s, tr @ [WakeUpIfAsleep, Command (SetTemps temp temp)])
                   | None \<Rightarrow>
                       (Inl KeyError, s\<lparr>attr_target_temperature := temp\<rparr>,
                        tr @ [WakeUpIfAsleep, Command (SetTemps temp temp)])))"
    by (rule climate_set_temperature_no_mode [OF k t m])
next
  assume a: "map_of kw ATTR_TEMPERATURE = Some temp \<and> map_of kw ATTR_HVAC_MODE = None
        \<and> truthy temp \<and> cop_level temp = Inl err"
  then show "cop_set_temperature env kw s tr = (Inl err, s, tr)"
    by (simp add: cop_set_temperature_rejects)
  from a show "err = ServiceValidationError ''Invalid temperature''"
    by (auto simp: cop_level_cases split: if_splits)
next
  assume "map_of kw ATTR_TEMPERATURE = Some temp \<and> map_of kw ATTR_HVAC_MODE = None
        \<and> truthy temp \<and> cop_level temp = Inr lvl"
  then have k: "map_of kw ATTR_TEMPERATURE = Some temp" and t: "truthy temp"
    and m: "map_of kw ATTR_HVAC_MODE = None" and l: "cop_level temp = Inr lvl" by simp_all
  show "cop_set_temperature env kw s tr =
        (if \<not> scoped s then (Inl (ServiceValidationError ''Missing required scope''), s, tr)
         else case wake env tr of
                Some e \<Rightarrow> (Inl e, s, tr @ [WakeUpIfAsleep])
              | None \<Rightarrow>
                  (case send env (tr @ [WakeUpIfAsleep]) (SetCopTemp lvl) of
                     Some e \<Rightarrow>
                       (Inl e, s, tr @ [WakeUpIfAsleep, Command (SetCopTemp lvl)])
                   | None \<Rightarrow>
                       (Inl KeyError, s\<lparr>attr_target_temperature := temp\<rparr>,
                        tr @ [WakeUpIfAsleep, Command (SetCopTemp lvl)])))"
    by (rule cop_set_temperature_no_mode [OF k t m l])
qed

theorem set_temperature_missing_key_witness:
  "climate_set_temperature sample_cmd_env [(''hvac_mode'', PStr ''off'')] sample_climate []
     = (Inl KeyError, sample_climate, [])
   \<and> cop_set_temperature sample_cmd_env [(''hvac_mode'', PStr ''off'')] sample_climate []
     = (Inl KeyError, sample_climate, [])
   \<and> climate_set_temperature sample_cmd_env [(''temperature'', PNone)] sample_climate []
     = (Inl KeyError, sample_climate, [])
   \<and> cop_set_temperature sample_cmd_env [(''temperature'', PInt 31)] sample_climate []
     = (Inl (ServiceValidationError ''Invalid temperature''), sample_climate, [])
   \<and> climate_set_temperature sample_cmd_env [(''temperature'', PInt 21)] sample_climate []
     = (Inl KeyError, sample_climate\<lparr>attr_target_temperature := PInt 21\<rparr>,
        [WakeUpIfAsleep, Command (SetTemps (PInt 21) (PInt 21))])
   \<and> cop_set_temperature sample_cmd_env [(''temperature'', PInt 40)] sample_climate []
     = (Inl KeyError, sample_climate\<lparr>attr_target_temperature := PInt 40\<rparr>,
        [WakeUpIfAsleep, Command (SetCopTemp HIGH)])
   \<and> climate_set_temperature sample_cmd_env [(''temperature'', PInt 21)]
       (sample_climate\<lparr>scoped := False\<rparr>) []
     = (Inl (ServiceValidationError ''Missing required scope''),
        sample_climate\<lparr>scoped := False\<rparr>, [])"
proof -
  have a: "climate_set_temperature sample_cmd_env [(''hvac_mode'', PStr ''off'')] sample_climate []
        = (Inl KeyError, sample_climate, [])
      \<and> cop_set_temperature sample_cmd_env [(''hvac_mode'', PStr ''off'')] sample_climate []
        = (Inl KeyError, sample_climate, [])"
    using set_temperature_missing_key [where kw = "[(''hvac_mode'', PStr ''off'')]"
        and env = sample_cmd_env and s = sample_climate and tr = "[]" and temp = "PNone"
        and lvl = LOW and err = KeyError]
    by (simp add: ATTR_TEMPERATURE_def ATTR_HVAC_MODE_def)
  have b: "climate_set_temperature sample_cmd_env [(''temperature'', PNone)] sample_climate []
        = (Inl KeyError, sample_climate, [])"
    using set_temperature_missing_key [where kw = "[(''temperature'', PNone)]"
        and env = sample_cmd_env and s = sample_climate and tr = "[]" and temp = "PNone"
        and lvl = LOW and err = KeyError]
    by (simp add: ATTR_TEMPERATURE_def ATTR_HVAC_MODE_def)
  have c: "cop_set_temperature sample_cmd_env [(''temperature'', PInt 31)] sample_climate []
        = (Inl (ServiceValidationError ''Invalid temperature''), sample_climate, [])"
    using set_temperature_missing_key [where kw = "[(''temperature'', PInt 31)]"
        and env = sample_cmd_env and s = sample_climate and tr = "[]" and temp = "PInt 31"
        and lvl = LOW and err = "ServiceValidationError ''Invalid temperature''"]
    by (simp add: ATTR_TEMPERATURE_def ATTR_HVAC_MODE_def cop_level_def eq_int_def)
  have d: "climate_set_temperature sample_cmd_env [(''temperature'', PInt 21)] sample_climate []
        = (Inl KeyError, sample_climate\<lparr>attr_target_temperature := PInt 21\<rparr>,
           [WakeUpIfAsleep, Command (SetTemps (PInt 21) (PInt 21))])"
    using set_temperature_missing_key [where kw = "[(''temperature'', PInt 21)]"
        and env = sample_cmd_env and s = sample_climate and tr = "[]" and temp = "PInt 21"
        and lvl = LOW and err = KeyError]
    by (simp add: ATTR_TEMPERATURE_def ATTR_HVAC_MODE_def sample_cmd_env_def
          sample_climate_def)
  have e: "cop_set_temperature sample_cmd_env [(''temperature'', PInt 40)] sample_climate []
        = (Inl KeyError, sample_climate\<lparr>attr_target_temperature := PInt 40\<rparr>,
           [WakeUpIfAsleep, Command (SetCopTemp HIGH)])"
    using set_temperature_missing_key [where kw = "[(''temperature'', PInt 40)]"
        and env = sample_cmd_env and s = sample_climate and tr = "[]" and temp = "PInt 40"
        and lvl = HIGH and err = KeyError]
    by (simp add: ATTR_TEMPERATURE_def ATTR_HVAC_MODE_def sample_cmd_env_def
          sample_climate_def cop_level_def eq_int_def)
  have f: "climate_set_temperature sample_cmd_env [(''temperature'', PInt 21)]
          (sample_climate\<lparr>scoped := False\<rparr>) []
        = (Inl (ServiceValidationError ''Missing required scope''),
           sample_climate\<lparr>scoped := False\<rparr>, [])"
    using set_temperature_missing_key [where kw = "[(''temperature'', PInt 21)]"
        and env = sample_cmd_env and s = "sample_climate\<lparr>scoped := False\<rparr>" and tr = "[]"
        and temp = "PInt 21" and lvl = LOW and err = KeyError]
    by (simp add: ATTR_TEMPERATURE_def ATTR_HVAC_MODE_def)
  from a b c d e f show ?thesis by (intro conjI) simp_all
qed

text \<open>
  The claim as stated fails for a call that gives a temperature and no HVAC mode: the
  \<open>KeyError\<close> comes after the \<open>set_temps\<close> command.
\<close>

theorem set_temperature_command_before_key_error:
  "fst (climate_set_temperature sample_cmd_env [(''temperature'', PInt 22)] sample_climate [])
     = Inl KeyError
   \<and> snd (snd (climate_set_temperature sample_cmd_env [(''temperature'', PInt 22)]
         sample_climate []))
     = [WakeUpIfAsleep, Command (SetTemps (PInt 22) (PInt 22))]"
  by (simp add: climate_set_temperature_def kwarg_def ATTR_TEMPERATURE_def ATTR_HVAC_MODE_def
        issue_def raise_for_scope_def wake_up_if_asleep_def handle_command_def
        sample_cmd_env_def sample_climate_def)

section \<open>The update entity's attribute refresh\<close>

lemma split_on_nonempty: "split_on c s \<noteq> []"
  by (induction s) (auto split: list.splits)

lemma split_on_hd: "split_on c s = t # ts \<Longrightarrow> t = takeWhile (\<lambda>x. x \<noteq> c) s"
  by (induction s arbitrary: t ts) (auto split: if_splits list.splits simp: split_on_nonempty)

lemma remove_build_str:
  "remove_build (PStr raw) = Inr (PStr (takeWhile (\<lambda>c. c \<noteq> CHR '' '') raw))"
proof (cases "split_on (CHR '' '') raw")
  case Nil
  then show ?thesis using split_on_nonempty by blast
next
  case (Cons t ts)
  then show ?thesis
    using split_on_hd [OF Cons] by (simp add: remove_build_def seq_index_def)
qed

lemma first_token_agrees:
  assumes "case raw of [] \<Rightarrow> True | c # cs \<Rightarrow> \<not> is_whitespace c"
    and "\<forall>c\<in>set raw. is_whitespace c \<longrightarrow> c = CHR '' ''"
  shows "takeWhile (\<lambda>c. c \<noteq> CHR '' '') raw = spec_first_token raw"
proof -
  have d: "dropWhile is_whitespace raw = raw"
    using assms(1) by (cases raw) auto
  have "takeWhile (\<lambda>c. c \<noteq> CHR '' '') raw = takeWhile (\<lambda>c. \<not> is_whitespace c) raw"
    using assms(2) by (intro takeWhile_cong) (auto simp: is_whitespace_def)
  with d show ?thesis by (simp add: spec_first_token_def)
qed

text \<open>
  Claim C7, as amended. In the update entity's attribute refresh, with a snapshot that is
  a dictionary and a car version that is a string: the installed version is the part of
  the car version before its first space character; when the status is one of the five
  update-pending values and the snapshot has the software-update-version field, the
  latest version is that field; when the status is none of them, the latest version is
  the installed version. The installed version is the first whitespace-delimited token
  whenever the car version does not begin with whitespace and has no whitespace other
  than spaces.
\<close>

theorem update_versions:
  assumes "snapshot s = PDict d"
    and "dict_lookup d (PStr ''vehicle_state_car_version'') = Some (PStr raw)"
    and "entity_value s = Inr st"
  shows "attr_installed_version (snd (update_update_attrs sv s))
           = PStr (takeWhile (\<lambda>c. c \<noteq> CHR '' '') raw)
       \<and> (update_pending sv st
            \<and> dict_lookup d (PStr ''vehicle_state_software_update_version'') = Some v \<longrightarrow>
          fst (update_update_attrs sv s) = Inr ()
          \<and> attr_latest_version (snd (update_update_attrs sv s)) = v)
       \<and> (\<not> update_pending sv st \<longrightarrow>
          fst (update_update_attrs sv s) = Inr ()
          \<and> attr_latest_version (snd (update_update_attrs sv s))
              = PStr (takeWhile (\<lambda>c. c \<noteq> CHR '' '') raw))
       \<and> ((case raw of [] \<Rightarrow> True | c # cs \<Rightarrow> \<not> is_whitespace c)
            \<and> (\<forall>c\<in>set raw. is_whitespace c \<longrightarrow> c = CHR '' '') \<longrightarrow>
          takeWhile (\<lambda>c. c \<noteq> CHR '' '') raw = spec_first_token raw)"
proof -
  from assms(1,3) have st: "(case dict_lookup d (PStr (key s)) of None \<Rightarrow> PNone | Some v \<Rightarrow> v) = st"
    by (simp add: entity_value_def entity_get_dict)
  have a: "attr_installed_version (snd (update_update_attrs sv s))
           = PStr (takeWhile (\<lambda>c. c \<noteq> CHR '' '') raw)"
    using assms(1,2) st
    by (simp add: update_update_attrs_def entity_value_def entity_get_dict Let_def
          remove_build_str split: option.splits)
  have b: "fst (update_update_attrs sv s) = Inr ()
          \<and> attr_latest_version (snd (update_update_attrs sv s)) = v"
    if "update_pending sv st"
      "dict_lookup d (PStr ''vehicle_state_software_update_version'') = Some v"
    using assms(1,2) st that
    by (simp add: update_update_attrs_def entity_value_def entity_get_dict Let_def
          remove_build_str)
  have c: "fst (update_update_attrs sv s) = Inr ()
          \<and> attr_latest_version (snd (update_update_attrs sv s))
              = PStr (takeWhile (\<lambda>c. c \<noteq> CHR '' '') raw)"
    if "\<not> update_pending sv st"
    using assms(1,2) st that
    by (simp add: update_update_attrs_def entity_value_def entity_get_dict Let_def
          remove_build_str)
  show ?thesis
    using a b c first_token_agrees by blast
qed

theorem update_versions_witness:
  "attr_installed_version (snd (update_update_attrs sample_sv
       (sample_update [(PStr ''vehicle_state_car_version'', PStr ''2024.8.9 abcdef'')])))
     = PStr ''2024.8.9''
   \<and> attr_latest_version (snd (update_update_attrs sample_sv
       (sample_update [(PStr ''vehicle_state_car_version'', PStr ''2024.8.9 abcdef'')])))
     = PStr ''2024.8.9''
   \<and> attr_latest_version (snd (update_update_attrs sample_sv
       (sample_update [(PStr ''vehicle_state_car_version'', PStr ''2024.8.9 abcdef''),
          (PStr ''vehicle_state_software_update_status'', PStr ''available''),
          (PStr ''vehicle_state_software_update_version'', PStr ''2024.14.3'')])))
     = PStr ''2024.14.3''
   \<and> spec_first_token ''2024.8.9 abcdef'' = ''2024.8.9''"
  using update_versions [where s = "sample_update
            [(PStr ''vehicle_state_car_version'', PStr ''2024.8.9 abcdef'')]"
          and d = "[(PStr ''vehicle_state_car_version'', PStr ''2024.8.9 abcdef'')]"
          and raw = "''2024.8.9 abcdef''" and st = PNone and sv = sample_sv and v = PNone]
        update_versions [where s = "sample_update
            [(PStr ''vehicle_state_car_version'', PStr ''2024.8.9 abcdef''),
             (PStr ''vehicle_state_software_update_status'', PStr ''available''),
             (PStr ''vehicle_state_software_update_version'', PStr ''2024.14.3'')]"
          and d = "[(PStr ''vehicle_state_car_version'', PStr ''2024.8.9 abcdef''),
             (PStr ''vehicle_state_software_update_status'', PStr ''available''),
             (PStr ''vehicle_state_software_update_version'', PStr ''2024.14.3'')]"
          and raw = "''2024.8.9 abcdef''" and st = "PStr ''available''" and sv = sample_sv
          and v = "PStr ''2024.14.3''"]
  by (simp add: sample_update_def entity_value_def entity_get_def update_pending_def
        status_in_def is_whitespace_def)

text \<open>
  The claim as stated fails for a car version whose build is set off by a tab: the code
  splits at spaces only and keeps the whole string, the first whitespace-delimited token
  is the version alone.
\<close>

theorem update_installed_version_keeps_tab:
  "attr_installed_version (snd (update_update_attrs sample_sv
       (sample_update [(PStr ''vehicle_state_car_version'',
                        PStr (''2024.8.9'' @ [CHR 0x09] @ ''abcdef''))])))
     = PStr (''2024.8.9'' @ [CHR 0x09] @ ''abcdef'')
   \<and> spec_first_token (''2024.8.9'' @ [CHR 0x09] @ ''abcdef'') = ''2024.8.9''"
  by (simp add: update_update_attrs_def sample_update_def entity_value_def entity_get_def
        Let_def remove_build_str update_pending_def status_in_def spec_first_token_def
        is_whitespace_def)

section \<open>The wake lock of a vehicle context\<close>

text \<open>
  Any two instances of \<open>TeslemetryVehicleData\<close> built from the class have the same wake
  lock, whatever their fields.
\<close>

lemma wakelock_shared_by_all_vehicles:
  "get_wakelock (new_TeslemetryVehicleData cls a1 c1 st1 v1 dev1 al1 er1)
     = get_wakelock (new_TeslemetryVehicleData cls a2 c2 st2 v2 dev2 al2 er2)"
  by (simp add: get_wakelock_def new_TeslemetryVehicleData_def)

text \<open>
  Claim C8, evaluated on the code: two vehicle contexts with different VINs have one and
  the same lock, and once the first vehicle's wake-up holds its lock, the second
  vehicle's lock cannot be taken.
\<close>

theorem wakelock_two_vehicles:
  "get_wakelock
       (new_TeslemetryVehicleData (fst (define_TeslemetryVehicleData empty_store))
          1 2 3 ''5YJ3E1EA7KF000001'' 4 '''' '''')
     = get_wakelock
       (new_TeslemetryVehicleData (fst (define_TeslemetryVehicleData empty_store))
          5 6 7 ''5YJ3E1EA7KF000002'' 8 '''' '''')
   \<and> (case acquire_nowait
             (get_wakelock
                (new_TeslemetryVehicleData (fst (define_TeslemetryVehicleData empty_store))
                   1 2 3 ''5YJ3E1EA7KF000001'' 4 '''' ''''))
             (snd (define_TeslemetryVehicleData empty_store)) of
         None \<Rightarrow> False
       | Some h \<Rightarrow>
           acquire_nowait
             (get_wakelock
                (new_TeslemetryVehicleData (fst (define_TeslemetryVehicleData empty_store))
                   5 6 7 ''5YJ3E1EA7KF000002'' 8 '''' ''''))
             h = None)"
  by (simp add: get_wakelock_def new_TeslemetryVehicleData_def define_TeslemetryVehicleData_def
        new_lock_def acquire_nowait_def empty_store_def)

section \<open>The vehicle coordinator\<close>

lemma refresh_state_frame:
  assumes "refresh_state env s = (r, s1, tr)"
  shows "failures s1 = failures s \<and> last_active s1 = last_active s
       \<and> update_interval s1 = update_interval s \<and> pre2021 s1 = pre2021 s
       \<and> updated_once s1 = updated_once s"
  using assms
  by (auto simp: refresh_state_def split: sum.splits if_splits)

lemma vehicle_try_frame:
  assumes "vehicle_try env s = (fl, s1, tr)"
  shows "failures s1 = failures s \<and> last_active s1 = last_active s
       \<and> update_interval s1 = update_interval s \<and> pre2021 s1 = pre2021 s
       \<and> updated_once s1 = updated_once s"
proof -
  obtain r s0 tr0 where r: "refresh_state env s = (r, s0, tr0)"
    by (cases "refresh_state env s") auto
  from assms r have "s1 = s0"
    by (auto simp: vehicle_try_def split: sum.splits if_splits)
  with refresh_state_frame [OF r] show ?thesis by simp
qed

lemma vehicle_cadence_frame:
  assumes "vehicle_cadence env d s = (r, s')"
  shows "failures s' = failures s \<and> pre2021 s' = pre2021 s \<and> data s' = data s"
  using assms
  by (auto simp: vehicle_cadence_def Let_def split: sum.splits if_splits)

lemma is_transient_cases:
  "is_transient f \<Longrightarrow> f \<noteq> VehicleOffline \<and> f \<noteq> InvalidToken"
  by (auto simp: is_transient_def)

lemma vehicle_update_transient:
  assumes "is_transient f"
    and "fst (vehicle_try env (s\<lparr>update_interval := VEHICLE_INTERVAL\<rparr>)) = Raised (Fleet f)"
  shows "failures (fst (snd (vehicle_update_data flatten env s))) = failures s + 1
       \<and> fst (vehicle_update_data flatten env s) =
           (if failures s + 1 > 2 then Inl (UpdateFailed Multiple5xx)
            else Inr (data (fst (snd (vehicle_update_data flatten env s)))))"
proof -
  obtain fl s1 tr where t: "vehicle_try env (s\<lparr>update_interval := VEHICLE_INTERVAL\<rparr>) = (fl, s1, tr)"
    by (cases "vehicle_try env (s\<lparr>update_interval := VEHICLE_INTERVAL\<rparr>)") auto
  from vehicle_try_frame [OF t] have f: "failures s1 = failures s" by simp
  from t assms(2) have fl: "fl = Raised (Fleet f)" by simp
  show ?thesis
    using t fl f is_transient_cases [OF assms(1)] assms(1)
    by (simp add: vehicle_update_data_def vehicle_except_def Let_def)
qed

lemma vehicle_update_success:
  assumes "fst (vehicle_try env (s\<lparr>update_interval := VEHICLE_INTERVAL\<rparr>)) = Fell d"
  shows "failures (fst (snd (vehicle_update_data flatten env s))) = 0"
proof -
  obtain fl s1 tr where t: "vehicle_try env (s\<lparr>update_interval := VEHICLE_INTERVAL\<rparr>) = (fl, s1, tr)"
    by (cases "vehicle_try env (s\<lparr>update_interval := VEHICLE_INTERVAL\<rparr>)") auto
  from t assms have fl: "fl = Fell d" by simp
  obtain r s3 where c: "vehicle_cadence env d (s1\<lparr>failures := 0\<rparr>) = (r, s3)"
    by (cases "vehicle_cadence env d (s1\<lparr>failures := 0\<rparr>)") auto
  from vehicle_cadence_frame [OF c] have "failures s3 = 0" by simp
  with t fl c show ?thesis
    by (cases r) (simp_all add: vehicle_update_data_def Let_def)
qed

lemma vehicle_update_other_failure:
  assumes "fst (vehicle_try env (s\<lparr>update_interval := VEHICLE_INTERVAL\<rparr>)) = Raised e"
    and "e \<notin> Fleet ` {InternalServerError, ServiceUnavailable, GatewayTimeout,
                      DeviceUnexpectedResponse}"
  shows "failures (fst (snd (vehicle_update_data flatten env s))) = failures s"
proof -
  obtain fl s1 tr where t: "vehicle_try env (s\<lparr>update_interval := VEHICLE_INTERVAL\<rparr>) = (fl, s1, tr)"
    by (cases "vehicle_try env (s\<lparr>update_interval := VEHICLE_INTERVAL\<rparr>)") auto
  from vehicle_try_frame [OF t] have f: "failures s1 = failures s" by simp
  from t assms(1) have fl: "fl = Raised e" by simp
  show ?thesis
    using t fl f assms(2)
    by (cases e)
       (auto simp: vehicle_update_data_def vehicle_except_def Let_def is_transient_def
          split: sum.splits)
qed

lemma energy_except_transient:
  "is_transient f \<Longrightarrow>
   energy_except (Fleet f) c =
     (if failures c + 1 > 2 then Inl (UpdateFailed Multiple5xx) else Inr (data c),
      c\<lparr>failures := failures c + 1\<rparr>)"
  using is_transient_cases [of f] by (simp add: energy_except_def Let_def)

lemma energy_except_other:
  "e \<notin> Fleet ` {InternalServerError, ServiceUnavailable, GatewayTimeout,
                DeviceUnexpectedResponse} \<Longrightarrow>
   failures (snd (energy_except e c)) = failures c"
  by (cases e) (auto simp: energy_except_def Let_def is_transient_def)

section \<open>The failure counter\<close>

lemma vehicle_update_returned:
  assumes "fst (vehicle_try env (s\<lparr>update_interval := VEHICLE_INTERVAL\<rparr>)) = Returned v"
  shows "failures (fst (snd (vehicle_update_data flatten env s))) = failures s"
proof -
  obtain fl s1 tr where t: "vehicle_try env (s\<lparr>update_interval := VEHICLE_INTERVAL\<rparr>) = (fl, s1, tr)"
    by (cases "vehicle_try env (s\<lparr>update_interval := VEHICLE_INTERVAL\<rparr>)") auto
  from vehicle_try_frame [OF t] have f: "failures s1 = failures s" by simp
  from t assms have fl: "fl = Returned v" by simp
  from t fl f show ?thesis
    by (simp add: vehicle_update_data_def Let_def)
qed

text \<open>
  Claim C1, as amended. In every coordinator a transient server error (internal server
  error, service unavailable, gateway timeout, unexpected device response) raised in the
  \<open>try\<close> block adds one to the failure counter, and that call surfaces the update failure
  exactly when the new count exceeds 2; otherwise it returns the cached snapshot. The
  count is not reset when a failure is surfaced: the update failure keeps the new count,
  and every other exception raised in the \<open>try\<close> block leaves the count as it was. In the
  vehicle coordinator the count after a call is 0 when the full-data fetch succeeded,
  also when the call raises after it (in the test for an active vehicle or in
  \<open>flatten\<close>), and is the count before the call when the call returns the cached
  snapshot of a vehicle that is not online.
\<close>

theorem failure_counter:
  "failures (fst (snd (vehicle_update_data flatten env s))) =
     (case fst (vehicle_try env (s\<lparr>update_interval := VEHICLE_INTERVAL\<rparr>)) of
        Fell d \<Rightarrow> 0
      | Returned v \<Rightarrow> failures s
      | Raised e \<Rightarrow>
          if e \<in> Fleet ` {InternalServerError, ServiceUnavailable, GatewayTimeout,
                           DeviceUnexpectedResponse}
          then failures s + 1 else failures s)
   \<and> (is_transient f
      \<and> fst (vehicle_try env (s\<lparr>update_interval := VEHICLE_INTERVAL\<rparr>)) = Raised (Fleet f) \<longrightarrow>
      fst (vehicle_update_data flatten env s) =
          (if failures s + 1 > 2 then Inl (UpdateFailed Multiple5xx)
           else Inr (data (fst (snd (vehicle_update_data flatten env s))))))
   \<and> (is_transient f \<longrightarrow>
      live_update_data (Inl (Fleet f)) c =
        (if failures c + 1 > 2 then Inl (UpdateFailed Multiple5xx) else Inr (data c),
         c\<lparr>failures := failures c + 1\<rparr>, [ApiLiveStatus])
      \<and> info_update_data flatten (Inl (Fleet f)) c =
        (if failures c + 1 > 2 then Inl (UpdateFailed Multiple5xx) else Inr (data c),
         c\<lparr>failures := failures c + 1\<rparr>, [ApiSiteInfo])
      \<and> history_update_data fo tracked (Inl (Fleet f)) c =
        (if failures c + 1 > 2 then Inl (UpdateFailed Multiple5xx) else Inr (data c),
         c\<lparr>failures := failures c + 1\<rparr>, [ApiEnergyHistory]))
   \<and> (energy_try r = Inl e'
      \<and> e' \<notin> Fleet ` {InternalServerError, ServiceUnavailable, GatewayTimeout,
                       DeviceUnexpectedResponse} \<longrightarrow>
      failures (fst (snd (live_update_data r c))) = failures c
      \<and> failures (fst (snd (info_update_data flatten r c))) = failures c
      \<and> failures (fst (snd (history_update_data fo tracked r c))) = failures c)"
proof (intro conjI impI)
  show "failures (fst (snd (vehicle_update_data flatten env s))) =
     (case fst (vehicle_try env (s\<lparr>update_interval := VEHICLE_INTERVAL\<rparr>)) of
        Fell d \<Rightarrow> 0
      | Returned v \<Rightarrow> failures s
      | Raised e \<Rightarrow>
          if e \<in> Fleet ` {InternalServerError, ServiceUnavailable, GatewayTimeout,
                           DeviceUnexpectedResponse}
          then failures s + 1 else failures s)"
  proof (cases "fst (vehicle_try env (s\<lparr>update_interval := VEHICLE_INTERVAL\<rparr>))")
    case (Fell d)
    with vehicle_update_success [OF Fell] show ?thesis by simp
  next
    case (Returned v)
    with vehicle_update_returned [OF Returned] show ?thesis by simp
  next
    case (Raised e)
    show ?thesis
    proof (cases "e \<in> Fleet ` {InternalServerError, ServiceUnavailable, GatewayTimeout,
                           DeviceUnexpectedResponse}")
      case True
      then obtain g where g: "e = Fleet g" "is_transient g"
        by (auto simp: is_transient_def)
      from vehicle_update_transient [OF g(2) Raised [unfolded g(1)]] Raised True
      show ?thesis by simp
    next
      case False
      from vehicle_update_other_failure [OF Raised False] Raised False
      show ?thesis by simp
    qed
  qed
next
  assume a: "is_transient f
      \<and> fst (vehicle_try env (s\<lparr>update_interval := VEHICLE_INTERVAL\<rparr>)) = Raised (Fleet f)"
  then have r: "failures (fst (snd (vehicle_update_data flatten env s))) = failures s + 1
       \<and> fst (vehicle_update_data flatten env s) =
           (if failures s + 1 > 2 then Inl (UpdateFailed Multiple5xx)
            else Inr (data (fst (snd (vehicle_update_data flatten env s)))))"
    using vehicle_update_transient by blast
  from r show "fst (vehicle_update_data flatten env s) =
           (if failures s + 1 > 2 then Inl (UpdateFailed Multiple5xx)
            else Inr (data (fst (snd (vehicle_update_data flatten env s)))))"
    by simp
next
  assume t: "is_transient f"
  show "live_update_data (Inl (Fleet f)) c =
        (if failures c + 1 > 2 then Inl (UpdateFailed Multiple5xx) else Inr (data c),
         c\<lparr>failures := failures c + 1\<rparr>, [ApiLiveStatus])"
    by (simp add: live_update_data_def energy_try_def bind_e_def energy_except_transient [OF t])
  show "info_update_data flatten (Inl (Fleet f)) c =
        (if failures c + 1 > 2 then Inl (UpdateFailed Multiple5xx) else Inr (data c),
         c\<lparr>failures := failures c + 1\<rparr>, [ApiSiteInfo])"
    by (simp add: info_update_data_def energy_try_def bind_e_def energy_except_transient [OF t])
  show "history_update_data fo tracked (Inl (Fleet f)) c =
        (if failures c + 1 > 2 then Inl (UpdateFailed Multiple5xx) else Inr (data c),
         c\<lparr>failures := failures c + 1\<rparr>, [ApiEnergyHistory])"
    by (simp add: history_update_data_def energy_try_def bind_e_def
          energy_except_transient [OF t])
next
  assume a: "energy_try r = Inl e'
      \<and> e' \<notin> Fleet ` {InternalServerError, ServiceUnavailable, GatewayTimeout,
                       DeviceUnexpectedResponse}"
  then have o: "failures (snd (energy_except e' c)) = failures c"
    using energy_except_other by blast
  from a o show "failures (fst (snd (live_update_data r c))) = failures c"
    by (auto simp: live_update_data_def split: prod.splits)
  from a o show "failures (fst (snd (info_update_data flatten r c))) = failures c"
    by (auto simp: info_update_data_def split: prod.splits)
  from a o show "failures (fst (snd (history_update_data fo tracked r c))) = failures c"
    by (auto simp: history_update_data_def split: prod.splits)
qed

theorem failure_counter_witness:
  "failures (fst (snd (vehicle_update_data sample_flatten
       (sample_env (Inl (Fleet VehicleOffline)) (Inl (Fleet GatewayTimeout)) 0)
       (sample_vehicle ONLINE 1 False)))) = 2
   \<and> fst (vehicle_update_data sample_flatten
       (sample_env (Inl (Fleet VehicleOffline)) (Inl (Fleet GatewayTimeout)) 0)
       (sample_vehicle ONLINE 1 False))
     = Inr (data (fst (snd (vehicle_update_data sample_flatten
       (sample_env (Inl (Fleet VehicleOffline)) (Inl (Fleet GatewayTimeout)) 0)
       (sample_vehicle ONLINE 1 False)))))
   \<and> failures (fst (snd (vehicle_update_data sample_flatten
       (sample_env (Inl (Fleet VehicleOffline)) (sample_response sample_idle) 0)
       (sample_vehicle ONLINE 2 False)))) = 0
   \<and> failures (fst (snd (vehicle_update_data sample_flatten
       (sample_env (Inl (Fleet VehicleOffline)) (sample_response (PDict [])) 0)
       (sample_vehicle ONLINE 2 True)))) = 0
   \<and> failures (fst (snd (vehicle_update_data sample_flatten
       (sample_env (Inl (Fleet VehicleOffline)) (Inl (Fleet InvalidToken)) 0)
       (sample_vehicle ONLINE 2 False)))) = 2
   \<and> failures (fst (snd (vehicle_update_data sample_flatten
       (sample_env (sample_response (PDict [(PStr ''state'', PStr ''asleep'')]))
          (Inl (Fleet InvalidToken)) 0)
       (sample_vehicle OFFLINE 2 False)))) = 2
   \<and> live_update_data (Inl (Fleet GatewayTimeout)) (sample_coordinator 2)
     = (Inl (UpdateFailed Multiple5xx), sample_coordinator 3, [ApiLiveStatus])
   \<and> failures (fst (snd (history_update_data sample_float_ops [''solar_energy_exported'']
       (Inl (Fleet InvalidToken)) (sample_coordinator 2)))) = 2"
  using failure_counter [where f = GatewayTimeout and flatten = sample_flatten
          and env = "sample_env (Inl (Fleet VehicleOffline)) (Inl (Fleet GatewayTimeout)) 0"
          and s = "sample_vehicle ONLINE 1 False" and c = "sample_coordinator 2"
          and e' = KeyError and r = "Inr PNone" and tracked = "[]"
          and fo = sample_float_ops]
        failure_counter [where f = VehicleOffline and flatten = sample_flatten
          and env = "sample_env (Inl (Fleet VehicleOffline)) (sample_response sample_idle) 0"
          and s = "sample_vehicle ONLINE 2 False" and c = "sample_coordinator 2"
          and e' = KeyError and r = "Inr PNone" and tracked = "[]"
          and fo = sample_float_ops]
        failure_counter [where f = VehicleOffline and flatten = sample_flatten
          and env = "sample_env (Inl (Fleet VehicleOffline)) (sample_response (PDict [])) 0"
          and s = "sample_vehicle ONLINE 2 True" and c = "sample_coordinator 2"
          and e' = KeyError and r = "Inr PNone" and tracked = "[]"
          and fo = sample_float_ops]
        failure_counter [where f = VehicleOffline and flatten = sample_flatten
          and env = "sample_env (Inl (Fleet VehicleOffline)) (Inl (Fleet InvalidToken)) 0"
          and s = "sample_vehicle ONLINE 2 False" and c = "sample_coordinator 2"
          and e' = "Fleet InvalidToken" and r = "Inl (Fleet InvalidToken)"
          and tracked = "[''solar_energy_exported'']" and fo = sample_float_ops]
        failure_counter [where f = VehicleOffline and flatten = sample_flatten
          and env = "sample_env (sample_response (PDict [(PStr ''state'', PStr ''asleep'')]))
                       (Inl (Fleet InvalidToken)) 0"
          and s = "sample_vehicle OFFLINE 2 False" and c = "sample_coordinator 2"
          and e' = KeyError and r = "Inr PNone" and tracked = "[]"
          and fo = sample_float_ops]
  by (simp add: vehicle_try_def refresh_state_def sample_env_def sample_vehicle_def
        sample_response_def sample_coordinator_def ONLINE_def OFFLINE_def is_transient_def
        energy_try_def bind_e_def)

text \<open>
  The claim as stated fails where it has the counter reset by a failure surfaced upward:
  the third transient error in a row surfaces the update failure and leaves the count
  at 3.
\<close>

theorem failure_counter_kept_on_update_failure:
  "fst (vehicle_update_data sample_flatten
       (sample_env (Inl (Fleet VehicleOffline)) (Inl (Fleet InternalServerError)) 0)
       (sample_vehicle ONLINE 2 False))
     = Inl (UpdateFailed Multiple5xx)
   \<and> failures (fst (snd (vehicle_update_data sample_flatten
       (sample_env (Inl (Fleet VehicleOffline)) (Inl (Fleet InternalServerError)) 0)
       (sample_vehicle ONLINE 2 False)))) = 3"
  by (simp add: vehicle_update_data_def vehicle_try_def refresh_state_def vehicle_except_def
        sample_env_def sample_vehicle_def ONLINE_def is_transient_def Let_def)

section \<open>The polling cadence\<close>

lemma vehicle_except_frame:
  "update_interval (fst (snd (vehicle_except e s))) = update_interval s
   \<and> last_active (fst (snd (vehicle_except e s))) = last_active s"
  by (cases e) (auto simp: vehicle_except_def Let_def split: sum.splits)

lemma vehicle_is_active_dicts:
  assumes "py_getitem d (PStr ''charge_state'') = Inr (PDict cs)"
    and "py_getitem d (PStr ''vehicle_state'') = Inr (PDict vs)"
  shows "vehicle_is_active d =
           Inr (dict_lookup cs (PStr ''charging_state'') = Some (PStr ''Charging'')
                \<or> truthy (case dict_lookup vs (PStr ''is_user_present'') of
                             None \<Rightarrow> PNone | Some x \<Rightarrow> x)
                \<or> truthy (case dict_lookup vs (PStr ''sentry_mode'') of
                             None \<Rightarrow> PNone | Some x \<Rightarrow> x))"
  using assms
  by (auto simp: vehicle_is_active_def bind_e_def split: option.splits)

lemma vehicle_update_fell:
  assumes "vehicle_try env (s\<lparr>update_interval := VEHICLE_INTERVAL\<rparr>) = (Fell d, s1, tr)"
  shows "fst (snd (vehicle_update_data flatten env s)) =
           (let s3 = snd (vehicle_cadence env d (s1\<lparr>failures := 0\<rparr>))
            in case fst (vehicle_cadence env d (s1\<lparr>failures := 0\<rparr>)) of
                 Inl e \<Rightarrow> s3 | Inr u \<Rightarrow> s3\<lparr>updated_once := True\<rparr>)"
  using assms
  by (simp add: vehicle_update_data_def Let_def split: prod.splits sum.splits)

text \<open>
  Claim C2. After a call of the vehicle coordinator the interval is the extended one
  exactly when the vehicle has the pre-2021 flag, the full-data fetch succeeded, the
  vehicle is not active, and the time since \<open>last_active\<close> is more than 15 and at most 20
  minutes; in every other case it is the normal one. For a pre-2021 vehicle after a
  successful fetch, \<open>last_active\<close> becomes the time of the call when the vehicle is active,
  and when it is not active and more than 20 minutes have passed; otherwise it stays.
  The vehicle is active when it is charging, a user is present or sentry mode is on.
\<close>

theorem adaptive_cadence:
  "update_interval (fst (snd (vehicle_update_data flatten env s))) =
     (if pre2021 s
         \<and> (case fst (vehicle_try env (s\<lparr>update_interval := VEHICLE_INTERVAL\<rparr>)) of
              Fell d \<Rightarrow> vehicle_is_active d = Inr False
            | Returned v \<Rightarrow> False
            | Raised e \<Rightarrow> False)
         \<and> minutes 15 < now1 env - last_active s
         \<and> now1 env - last_active s \<le> minutes 20
      then VEHICLE_WAIT else VEHICLE_INTERVAL)
   \<and> (pre2021 s
        \<and> fst (vehicle_try env (s\<lparr>update_interval := VEHICLE_INTERVAL\<rparr>)) = Fell d
        \<and> vehicle_is_active d = Inr True \<longrightarrow>
      last_active (fst (snd (vehicle_update_data flatten env s))) = now1 env)
   \<and> (pre2021 s
        \<and> fst (vehicle_try env (s\<lparr>update_interval := VEHICLE_INTERVAL\<rparr>)) = Fell d
        \<and> vehicle_is_active d = Inr False
        \<and> minutes 20 < now1 env - last_active s \<longrightarrow>
      last_active (fst (snd (vehicle_update_data flatten env s))) = now2 env)
   \<and> (pre2021 s
        \<and> fst (vehicle_try env (s\<lparr>update_interval := VEHICLE_INTERVAL\<rparr>)) = Fell d
        \<and> vehicle_is_active d = Inr False
        \<and> now1 env - last_active s \<le> minutes 20 \<longrightarrow>
      last_active (fst (snd (vehicle_update_data flatten env s))) = last_active s)
   \<and> (py_getitem d (PStr ''charge_state'') = Inr (PDict cs)
        \<and> py_getitem d (PStr ''vehicle_state'') = Inr (PDict vs) \<longrightarrow>
      vehicle_is_active d =
        Inr (dict_lookup cs (PStr ''charging_state'') = Some (PStr ''Charging'')
             \<or> truthy (case dict_lookup vs (PStr ''is_user_present'') of
                          None \<Rightarrow> PNone | Some x \<Rightarrow> x)
             \<or> truthy (case dict_lookup vs (PStr ''sentry_mode'') of
                          None \<Rightarrow> PNone | Some x \<Rightarrow> x)))"
proof -
  let ?s = "s\<lparr>update_interval := VEHICLE_INTERVAL\<rparr>"
  obtain fl s1 tr where t: "vehicle_try env ?s = (fl, s1, tr)"
    by (cases "vehicle_try env ?s") auto
  from vehicle_try_frame [OF t]
  have fr: "update_interval s1 = VEHICLE_INTERVAL" "pre2021 s1 = pre2021 s"
    "last_active s1 = last_active s"
    by simp_all
  have interval: "update_interval (fst (snd (vehicle_update_data flatten env s))) =
     (if pre2021 s
         \<and> (case fst (vehicle_try env ?s) of
              Fell d \<Rightarrow> vehicle_is_active d = Inr False
            | Returned v \<Rightarrow> False
            | Raised e \<Rightarrow> False)
         \<and> minutes 15 < now1 env - last_active s
         \<and> now1 env - last_active s \<le> minutes 20
      then VEHICLE_WAIT else VEHICLE_INTERVAL)"
  proof (cases fl)
    case (Fell d')
    with t have t': "vehicle_try env ?s = (Fell d', s1, tr)" by simp
    show ?thesis
      using fr t'
      by (cases "vehicle_is_active d'")
         (auto simp: vehicle_update_fell [OF t'] vehicle_cadence_def Let_def minutes_def)
  next
    case (Returned v)
    with t fr show ?thesis by (simp add: vehicle_update_data_def Let_def)
  next
    case (Raised e)
    with t fr vehicle_except_frame [of e s1] show ?thesis
      by (auto simp: vehicle_update_data_def Let_def split: prod.splits)
  qed
  have la: "last_active (fst (snd (vehicle_update_data flatten env s))) =
      (if vehicle_is_active d = Inr True then now1 env
       else if minutes 20 < now1 env - last_active s then now2 env else last_active s)"
    if "pre2021 s" "fst (vehicle_try env ?s) = Fell d"
      "vehicle_is_active d = Inr True \<or> vehicle_is_active d = Inr False"
  proof -
    from t that(2) have t': "vehicle_try env ?s = (Fell d, s1, tr)" by simp
    show ?thesis
      using fr that(1,3)
      by (auto simp: vehicle_update_fell [OF t'] vehicle_cadence_def Let_def minutes_def)
  qed
  show ?thesis
    using interval la vehicle_is_active_dicts by (intro conjI impI) auto
qed

theorem adaptive_cadence_witness:
  "update_interval (fst (snd (vehicle_update_data sample_flatten
       (sample_env (Inl (Fleet VehicleOffline)) (sample_response sample_idle) (minutes 16))
       (sample_vehicle ONLINE 0 True)))) = VEHICLE_WAIT
   \<and> update_interval (fst (snd (vehicle_update_data sample_flatten
       (sample_env (Inl (Fleet VehicleOffline)) (sample_response sample_idle) (minutes 21))
       (sample_vehicle ONLINE 0 True)))) = VEHICLE_INTERVAL
   \<and> last_active (fst (snd (vehicle_update_data sample_flatten
       (sample_env (Inl (Fleet VehicleOffline)) (sample_response sample_idle) (minutes 21))
       (sample_vehicle ONLINE 0 True)))) = minutes 21 + 1
   \<and> update_interval (fst (snd (vehicle_update_data sample_flatten
       (sample_env (Inl (Fleet VehicleOffline)) (sample_response sample_idle) (minutes 16))
       (sample_vehicle ONLINE 0 False)))) = VEHICLE_INTERVAL"
  using adaptive_cadence [where flatten = sample_flatten
          and env = "sample_env (Inl (Fleet VehicleOffline)) (sample_response sample_idle)
                       (minutes 16)"
          and s = "sample_vehicle ONLINE 0 True" and d = sample_idle
          and cs = "[(PStr ''charging_state'', PStr ''Stopped'')]"
          and vs = "[(PStr ''is_user_present'', PBool False),
                    (PStr ''sentry_mode'', PBool False)]"]
        adaptive_cadence [where flatten = sample_flatten
          and env = "sample_env (Inl (Fleet VehicleOffline)) (sample_response sample_idle)
                       (minutes 21)"
          and s = "sample_vehicle ONLINE 0 True" and d = sample_idle
          and cs = "[(PStr ''charging_state'', PStr ''Stopped'')]"
          and vs = "[(PStr ''is_user_present'', PBool False),
                    (PStr ''sentry_mode'', PBool False)]"]
        adaptive_cadence [where flatten = sample_flatten
          and env = "sample_env (Inl (Fleet VehicleOffline)) (sample_response sample_idle)
                       (minutes 16)"
          and s = "sample_vehicle ONLINE 0 False" and d = sample_idle
          and cs = "[(PStr ''charging_state'', PStr ''Stopped'')]"
          and vs = "[(PStr ''is_user_present'', PBool False),
                    (PStr ''sentry_mode'', PBool False)]"]
  by (simp add: vehicle_try_def refresh_state_def sample_env_def sample_vehicle_def
        sample_response_def sample_idle_def ONLINE_def minutes_def)

section \<open>A vehicle that is not online\<close>

text \<open>
  Claim C3. When the cached state is not online and the summary refresh reports a state
  that is not online either, the coordinator returns its cached snapshot with the new
  state, after the summary call alone: the full data is not fetched. When the full-data
  fetch raises the vehicle-offline error (whether the cached state was online or the
  summary refresh made it so), the coordinator returns its cached snapshot with the state
  offline. No error is surfaced in either case, and storing the state changes no other
  field of the snapshot and no key.
\<close>

theorem vehicle_not_online_returns_cached:
  assumes "data s = PDict m"
  shows "(dict_lookup m (PStr ''state'') = Some cached \<and> cached \<noteq> ONLINE
          \<and> vehicle env = Inr resp \<and> py_getitem resp (PStr ''response'') = Inr body
          \<and> py_getitem body (PStr ''state'') = Inr fresh \<and> fresh \<noteq> ONLINE \<longrightarrow>
          vehicle_update_data flatten env s =
            (Inr (PDict (dict_store m (PStr ''state'') fresh)),
             s\<lparr>data := PDict (dict_store m (PStr ''state'') fresh),
               update_interval := VEHICLE_INTERVAL\<rparr>,
             [ApiVehicle]))
       \<and> (dict_lookup m (PStr ''state'') = Some ONLINE
          \<and> vehicle_data env = Inl (Fleet VehicleOffline) \<longrightarrow>
          vehicle_update_data flatten env s =
            (Inr (PDict (dict_store m (PStr ''state'') OFFLINE)),
             s\<lparr>data := PDict (dict_store m (PStr ''state'') OFFLINE),
               update_interval := VEHICLE_INTERVAL\<rparr>,
             [ApiVehicleData]))
       \<and> (dict_lookup m (PStr ''state'') = Some cached \<and> cached \<noteq> ONLINE
          \<and> vehicle env = Inr resp \<and> py_getitem resp (PStr ''response'') = Inr body
          \<and> py_getitem body (PStr ''state'') = Inr ONLINE
          \<and> vehicle_data env = Inl (Fleet VehicleOffline) \<longrightarrow>
          vehicle_update_data flatten env s =
            (Inr (PDict (dict_store (dict_store m (PStr ''state'') ONLINE)
                           (PStr ''state'') OFFLINE)),
             s\<lparr>data := PDict (dict_store (dict_store m (PStr ''state'') ONLINE)
                                 (PStr ''state'') OFFLINE),
               update_interval := VEHICLE_INTERVAL\<rparr>,
             [ApiVehicle, ApiVehicleData]))
       \<and> (k \<noteq> PStr ''state'' \<longrightarrow>
          dict_lookup (dict_store n (PStr ''state'') v) k = dict_lookup n k)
       \<and> (dict_lookup n (PStr ''state'') \<noteq> None \<longrightarrow>
          map fst (dict_store n (PStr ''state'') v) = map fst n)"
proof (intro conjI impI)
  assume "dict_lookup m (PStr ''state'') = Some cached \<and> cached \<noteq> ONLINE
          \<and> vehicle env = Inr resp \<and> py_getitem resp (PStr ''response'') = Inr body
          \<and> py_getitem body (PStr ''state'') = Inr fresh \<and> fresh \<noteq> ONLINE"
  with assms show "vehicle_update_data flatten env s =
            (Inr (PDict (dict_store m (PStr ''state'') fresh)),
             s\<lparr>data := PDict (dict_store m (PStr ''state'') fresh),
               update_interval := VEHICLE_INTERVAL\<rparr>,
             [ApiVehicle])"
    by (simp add: vehicle_update_data_def vehicle_try_def refresh_state_def bind_e_def Let_def)
next
  assume "dict_lookup m (PStr ''state'') = Some ONLINE
          \<and> vehicle_data env = Inl (Fleet VehicleOffline)"
  with assms show "vehicle_update_data flatten env s =
            (Inr (PDict (dict_store m (PStr ''state'') OFFLINE)),
             s\<lparr>data := PDict (dict_store m (PStr ''state'') OFFLINE),
               update_interval := VEHICLE_INTERVAL\<rparr>,
             [ApiVehicleData])"
    by (simp add: vehicle_update_data_def vehicle_try_def refresh_state_def vehicle_except_def
          bind_e_def Let_def)
next
  assume "dict_lookup m (PStr ''state'') = Some cached \<and> cached \<noteq> ONLINE
          \<and> vehicle env = Inr resp \<and> py_getitem resp (PStr ''response'') = Inr body
          \<and> py_getitem body (PStr ''state'') = Inr ONLINE
          \<and> vehicle_data env = Inl (Fleet VehicleOffline)"
  with assms show "vehicle_update_data flatten env s =
            (Inr (PDict (dict_store (dict_store m (PStr ''state'') ONLINE)
                           (PStr ''state'') OFFLINE)),
             s\<lparr>data := PDict (dict_store (dict_store m (PStr ''state'') ONLINE)
                                 (PStr ''state'') OFFLINE),
               update_interval := VEHICLE_INTERVAL\<rparr>,
             [ApiVehicle, ApiVehicleData])"
    by (simp add: vehicle_update_data_def vehicle_try_def refresh_state_def vehicle_except_def
          bind_e_def Let_def)
next
  assume "k \<noteq> PStr ''state''"
  then show "dict_lookup (dict_store n (PStr ''state'') v) k = dict_lookup n k"
    by (simp add: dict_lookup_store_other)
next
  assume "dict_lookup n (PStr ''state'') \<noteq> None"
  then show "map fst (dict_store n (PStr ''state'') v) = map fst n"
    by (rule dict_store_keys)
qed

theorem vehicle_not_online_returns_cached_witness:
  "vehicle_update_data sample_flatten
       (sample_env (sample_response (PDict [(PStr ''state'', PStr ''asleep'')]))
          (sample_response sample_idle) 0)
       (sample_vehicle (PStr ''offline'') 0 True)
     = (Inr (PDict [(PStr ''state'', PStr ''asleep''),
                    (PStr ''vin'', PStr ''5YJ3E1EA7KF000001'')]),
        sample_vehicle (PStr ''asleep'') 0 True, [ApiVehicle])
   \<and> vehicle_update_data sample_flatten
       (sample_env (Inl (Fleet VehicleOffline)) (Inl (Fleet VehicleOffline)) 0)
       (sample_vehicle ONLINE 0 True)
     = (Inr (PDict [(PStr ''state'', OFFLINE),
                    (PStr ''vin'', PStr ''5YJ3E1EA7KF000001'')]),
        sample_vehicle OFFLINE 0 True, [ApiVehicleData])"
  using vehicle_not_online_returns_cached [where s = "sample_vehicle (PStr ''offline'') 0 True"
          and m = "[(PStr ''state'', PStr ''offline''),
                    (PStr ''vin'', PStr ''5YJ3E1EA7KF000001'')]"
          and cached = "PStr ''offline''" and fresh = "PStr ''asleep''"
          and env = "sample_env (sample_response (PDict [(PStr ''state'', PStr ''asleep'')]))
                       (sample_response sample_idle) 0"
          and resp = "PDict [(PStr ''response'', PDict [(PStr ''state'', PStr ''asleep'')])]"
          and body = "PDict [(PStr ''state'', PStr ''asleep'')]"
          and flatten = sample_flatten and k = "PStr ''vin''" and n = "[]" and v = PNone]
        vehicle_not_online_returns_cached [where s = "sample_vehicle ONLINE 0 True"
          and m = "[(PStr ''state'', ONLINE), (PStr ''vin'', PStr ''5YJ3E1EA7KF000001'')]"
          and cached = PNone and fresh = PNone
          and env = "sample_env (Inl (Fleet VehicleOffline)) (Inl (Fleet VehicleOffline)) 0"
          and resp = PNone and body = PNone
          and flatten = sample_flatten and k = "PStr ''vin''" and n = "[]" and v = PNone]
  by (simp add: sample_env_def sample_vehicle_def sample_response_def ONLINE_def OFFLINE_def)

section \<open>The energy history\<close>

lemma dict_store_new_str:
  "k \<notin> set ks \<Longrightarrow>
   dict_store (map (\<lambda>x. (PStr x, g x)) ks) (PStr k) v = map (\<lambda>x. (PStr x, g x)) ks @ [(PStr k, v)]"
  by (induction ks) auto

lemma zero_fields_map:
  "distinct (ks0 @ ks) \<Longrightarrow>
   zero_fields ks (map (\<lambda>x. (PStr x, PInt 0)) ks0) = map (\<lambda>x. (PStr x, PInt 0)) (ks0 @ ks)"
proof (induction ks arbitrary: ks0)
  case Nil
  then show ?case by simp
next
  case (Cons k ks)
  from Cons.prems have k: "k \<notin> set ks0" and d: "distinct ((ks0 @ [k]) @ ks)" by auto
  have "dict_store (map (\<lambda>x. (PStr x, PInt 0)) ks0) (PStr k) (PInt 0)
          = map (\<lambda>x. (PStr x, PInt 0)) (ks0 @ [k])"
    using dict_store_new_str [OF k, of "\<lambda>x. PInt 0" "PInt 0"] by simp
  with Cons.IH [OF d] show ?case by simp
qed

lemma dict_lookup_map_str:
  "dict_lookup (map (\<lambda>x. (PStr x, g x)) ks) (PStr k)
     = (if k \<in> set ks then Some (g k) else None)"
  by (induction ks) auto

lemma dict_store_map_str:
  "distinct ks \<Longrightarrow> k \<in> set ks \<Longrightarrow>
   dict_store (map (\<lambda>x. (PStr x, g x)) ks) (PStr k) v
     = map (\<lambda>x. (PStr x, if x = k then v else g x)) ks"
proof (induction ks)
  case Nil
  then show ?case by simp
next
  case (Cons a ks)
  show ?case
  proof (cases "a = k")
    case True
    with Cons.prems have "k \<notin> set ks" by simp
    then have "map (\<lambda>x. (PStr x, g x)) ks
        = map (\<lambda>x. (PStr x, if x = k then v else g x)) ks"
      by (intro map_cong) auto
    with True show ?thesis by simp
  next
    case False
    with Cons show ?thesis by simp
  qed
qed

text \<open>One pass of the inner loop makes one step of the accumulation for every field.\<close>

lemma add_period_step:
  assumes "distinct tracked" "k \<in> set tracked"
  shows "add_period fo (k # ks) q (PDict (map (\<lambda>x. (PStr x, g x)) tracked))
     = bind_e (add_field fo (g k) q k) (\<lambda>a.
         add_period fo ks q (PDict (map (\<lambda>x. (PStr x, if x = k then a else g x)) tracked)))"
  using assms
  by (simp add: bind_e_def add_field_def dict_lookup_map_str dict_store_map_str
        del: py_get.simps py_add.simps split: sum.splits)

lemma add_period_ok:
  assumes "distinct tracked"
  shows "distinct ks \<Longrightarrow> set ks \<subseteq> set tracked \<Longrightarrow>
     \<forall>k\<in>set ks. add_field fo (g k) q k = Inr (h k) \<Longrightarrow>
     add_period fo ks q (PDict (map (\<lambda>x. (PStr x, g x)) tracked))
       = Inr (PDict (map (\<lambda>x. (PStr x, if x \<in> set ks then h x else g x)) tracked))"
proof (induction ks arbitrary: g)
  case Nil
  then show ?case by simp
next
  case (Cons k ks)
  from Cons.prems have k: "k \<in> set tracked" "k \<notin> set ks" and ks: "distinct ks"
    "set ks \<subseteq> set tracked" by auto
  let ?g = "\<lambda>x. if x = k then h k else g x"
  from Cons.prems(3) have hk: "add_field fo (g k) q k = Inr (h k)" by simp
  from Cons.prems(3) k(2) have rest: "\<forall>x\<in>set ks. add_field fo (?g x) q x = Inr (h x)"
    by auto
  have "add_period fo (k # ks) q (PDict (map (\<lambda>x. (PStr x, g x)) tracked))
      = add_period fo ks q (PDict (map (\<lambda>x. (PStr x, ?g x)) tracked))"
    by (simp only: add_period_step [OF assms k(1)] hk) (simp add: bind_e_def)
  also have "\<dots> = Inr (PDict (map (\<lambda>x. (PStr x, if x \<in> set ks then h x else ?g x)) tracked))"
    by (rule Cons.IH [OF ks rest])
  also have "map (\<lambda>x. (PStr x, if x \<in> set ks then h x else ?g x)) tracked
      = map (\<lambda>x. (PStr x, if x \<in> set (k # ks) then h x else g x)) tracked"
    by (intro map_cong) auto
  finally show ?case .
qed

lemma add_period_fails:
  assumes "distinct tracked"
  shows "distinct ks \<Longrightarrow> set ks \<subseteq> set tracked \<Longrightarrow>
     \<exists>k\<in>set ks. \<exists>e. add_field fo (g k) q k = Inl e \<Longrightarrow>
     \<exists>e. add_period fo ks q (PDict (map (\<lambda>x. (PStr x, g x)) tracked)) = Inl e"
proof (induction ks arbitrary: g)
  case Nil
  then show ?case by simp
next
  case (Cons k ks)
  from Cons.prems have k: "k \<in> set tracked" "k \<notin> set ks" and ks: "distinct ks"
    "set ks \<subseteq> set tracked" by auto
  show ?case
  proof (cases "add_field fo (g k) q k")
    case (Inl e)
    then show ?thesis
      by (simp only: add_period_step [OF assms k(1)]) (simp add: bind_e_def)
  next
    case (Inr a)
    let ?g = "\<lambda>x. if x = k then a else g x"
    from Cons.prems(3) Inr obtain k' e where k': "k' \<in> set ks"
      and e: "add_field fo (g k') q k' = Inl e" by auto
    from k' k(2) have "k' \<noteq> k" by auto
    with k' e have "\<exists>x\<in>set ks. \<exists>e. add_field fo (?g x) q x = Inl e" by auto
    from Cons.IH [OF ks this] obtain e' where
      "add_period fo ks q (PDict (map (\<lambda>x. (PStr x, ?g x)) tracked)) = Inl e'" by blast
    with Inr show ?thesis
      by (simp only: add_period_step [OF assms k(1)]) (simp add: bind_e_def)
  qed
qed

text \<open>
  The nested loops give every field the sum over the records, when every such sum exists,
  and raise when one of them does not.
\<close>

lemma add_periods_ok:
  assumes "distinct tracked"
  shows "\<forall>k\<in>set tracked. sum_field fo k (g k) periods = Inr (tot k) \<Longrightarrow>
     add_periods fo tracked periods (PDict (map (\<lambda>x. (PStr x, g x)) tracked))
       = Inr (PDict (map (\<lambda>x. (PStr x, tot x)) tracked))"
proof (induction periods arbitrary: g)
  case Nil
  then have "map (\<lambda>x. (PStr x, g x)) tracked = map (\<lambda>x. (PStr x, tot x)) tracked"
    by (intro map_cong) auto
  then show ?case by simp
next
  case (Cons q periods)
  define h where "h k = (case add_field fo (g k) q k of Inr a \<Rightarrow> a | Inl e \<Rightarrow> PNone)" for k
  from Cons.prems have one: "\<forall>k\<in>set tracked. add_field fo (g k) q k = Inr (h k)"
    by (auto simp: bind_e_def h_def split: sum.splits)
  with Cons.prems have rest: "\<forall>k\<in>set tracked. sum_field fo k (h k) periods = Inr (tot k)"
    by (auto simp: bind_e_def)
  have "add_period fo tracked q (PDict (map (\<lambda>x. (PStr x, g x)) tracked))
      = Inr (PDict (map (\<lambda>x. (PStr x, if x \<in> set tracked then h x else g x)) tracked))"
    using add_period_ok [OF assms assms subset_refl one] .
  also have "map (\<lambda>x. (PStr x, if x \<in> set tracked then h x else g x)) tracked
      = map (\<lambda>x. (PStr x, h x)) tracked"
    by (intro map_cong) auto
  finally have "add_period fo tracked q (PDict (map (\<lambda>x. (PStr x, g x)) tracked))
      = Inr (PDict (map (\<lambda>x. (PStr x, h x)) tracked))" .
  with Cons.IH [OF rest] show ?case by (simp add: bind_e_def)
qed

lemma add_periods_fails:
  assumes "distinct tracked"
  shows "\<exists>k\<in>set tracked. \<exists>e. sum_field fo k (g k) periods = Inl e \<Longrightarrow>
     \<exists>e. add_periods fo tracked periods (PDict (map (\<lambda>x. (PStr x, g x)) tracked)) = Inl e"
proof (induction periods arbitrary: g)
  case Nil
  then show ?case by simp
next
  case (Cons q periods)
  show ?case
  proof (cases "\<exists>k\<in>set tracked. \<exists>e. add_field fo (g k) q k = Inl e")
    case True
    from add_period_fails [OF assms assms subset_refl True] obtain e where
      "add_period fo tracked q (PDict (map (\<lambda>x. (PStr x, g x)) tracked)) = Inl e" by blast
    then show ?thesis by (simp add: bind_e_def)
  next
    case False
    define h where "h k = (case add_field fo (g k) q k of Inr a \<Rightarrow> a | Inl e \<Rightarrow> PNone)" for k
    from False have one: "\<forall>k\<in>set tracked. add_field fo (g k) q k = Inr (h k)"
      by (auto simp: h_def split: sum.splits)
    from Cons.prems obtain k e where k: "k \<in> set tracked"
      and e: "sum_field fo k (g k) (q # periods) = Inl e" by blast
    from one k e have "sum_field fo k (h k) periods = Inl e" by (simp add: bind_e_def)
    with k have rest: "\<exists>k\<in>set tracked. \<exists>e. sum_field fo k (h k) periods = Inl e" by blast
    have "add_period fo tracked q (PDict (map (\<lambda>x. (PStr x, g x)) tracked))
        = Inr (PDict (map (\<lambda>x. (PStr x, if x \<in> set tracked then h x else g x)) tracked))"
      using add_period_ok [OF assms assms subset_refl one] .
    also have "map (\<lambda>x. (PStr x, if x \<in> set tracked then h x else g x)) tracked
        = map (\<lambda>x. (PStr x, h x)) tracked"
      by (intro map_cong) auto
    finally have "add_period fo tracked q (PDict (map (\<lambda>x. (PStr x, g x)) tracked))
        = Inr (PDict (map (\<lambda>x. (PStr x, h x)) tracked))" .
    with Cons.IH [OF rest] show ?thesis by (simp add: bind_e_def)
  qed
qed

text \<open>For integers the accumulated sum is the sum.\<close>

lemma sum_field_ints:
  "\<forall>p\<in>set periods. py_get p (PStr k) (PInt 0) = Inr (PInt (f p)) \<Longrightarrow>
   sum_field fo k (PInt a) periods = Inr (PInt (a + sum_list (map f periods)))"
proof (induction periods arbitrary: a)
  case Nil
  then show ?case by simp
next
  case (Cons q periods)
  from Cons.prems have q: "py_get q (PStr k) (PInt 0) = Inr (PInt (f q))"
    and r: "\<forall>p\<in>set periods. py_get p (PStr k) (PInt 0) = Inr (PInt (f p))" by simp_all
  from q have "add_field fo (PInt a) q k = Inr (PInt (a + f q))"
    by (simp add: add_field_def bind_e_def add_numbers_def)
  with Cons.IH [OF r, of "a + f q"] show ?case
    by (simp add: bind_e_def add.assoc)
qed

lemma history_update_data_sums:
  assumes "distinct tracked" and "energy_try r = Inr d0"
    and "time_series_records d0 = Inr periods"
  shows "history_update_data fo tracked r c =
           (add_periods fo tracked periods (PDict (map (\<lambda>x. (PStr x, PInt 0)) tracked)),
            c, [ApiEnergyHistory])"
proof -
  have z: "zero_fields tracked [] = map (\<lambda>x. (PStr x, PInt 0)) tracked"
    using zero_fields_map [of "[]" tracked] assms(1) by simp
  from assms(2,3) show ?thesis
    unfolding z [symmetric]
    by (auto simp: history_update_data_def sum_time_series_def time_series_records_def
          bind_e_def Let_def simp del: py_get.simps split: sum.splits)
qed

text \<open>
  Claim C5, as amended. For a successful energy-history fetch, the tracked fields
  \<open>ENERGY_HISTORY_FIELDS\<close> taken to be distinct: when every tracked field can be summed
  over the time-bucket records (from the integer 0, in the order of the records, with the
  \<open>+\<close> of the interpreter, a record without the field counting 0), the result has exactly
  the tracked fields, in their order, each with that sum, which for integer values is
  their exact sum; so all fields are 0 for no records. When some tracked field cannot be
  summed (a record that is no dictionary, a value that is no number), or the time series
  cannot be iterated, the call raises and returns nothing.
\<close>

theorem history_sums:
  assumes "distinct tracked" and "energy_try r = Inr d0"
  shows "(time_series_records d0 = Inr periods
            \<and> (\<forall>k\<in>set tracked. sum_field fo k (PInt 0) periods = Inr (tot k)) \<longrightarrow>
          history_update_data fo tracked r c =
            (Inr (PDict (map (\<lambda>k. (PStr k, tot k)) tracked)), c, [ApiEnergyHistory]))
       \<and> (time_series_records d0 = Inr periods
            \<and> (\<forall>k\<in>set tracked. \<forall>p\<in>set periods.
                  py_get p (PStr k) (PInt 0) = Inr (PInt (f p k))) \<longrightarrow>
          history_update_data fo tracked r c =
            (Inr (PDict (map (\<lambda>k. (PStr k, PInt (sum_list (map (\<lambda>p. f p k) periods))))
                    tracked)), c, [ApiEnergyHistory]))
       \<and> (time_series_records d0 = Inr periods
            \<and> (\<exists>k\<in>set tracked. \<exists>e. sum_field fo k (PInt 0) periods = Inl e) \<longrightarrow>
          (\<exists>e. history_update_data fo tracked r c = (Inl e, c, [ApiEnergyHistory])))
       \<and> (time_series_records d0 = Inl e \<longrightarrow>
          history_update_data fo tracked r c = (Inl e, c, [ApiEnergyHistory]))"
proof (intro conjI impI)
  assume a: "time_series_records d0 = Inr periods
      \<and> (\<forall>k\<in>set tracked. sum_field fo k (PInt 0) periods = Inr (tot k))"
  then have "add_periods fo tracked periods (PDict (map (\<lambda>x. (PStr x, PInt 0)) tracked))
      = Inr (PDict (map (\<lambda>x. (PStr x, tot x)) tracked))"
    using add_periods_ok [OF assms(1), of fo "\<lambda>x. PInt 0" periods tot] by simp
  with a show "history_update_data fo tracked r c =
      (Inr (PDict (map (\<lambda>k. (PStr k, tot k)) tracked)), c, [ApiEnergyHistory])"
    by (simp add: history_update_data_sums [OF assms])
next
  assume a: "time_series_records d0 = Inr periods
      \<and> (\<forall>k\<in>set tracked. \<forall>p\<in>set periods.
            py_get p (PStr k) (PInt 0) = Inr (PInt (f p k)))"
  have "\<forall>k\<in>set tracked. sum_field fo k (PInt 0) periods
      = Inr (PInt (sum_list (map (\<lambda>p. f p k) periods)))"
  proof
    fix k assume "k \<in> set tracked"
    with a have "\<forall>p\<in>set periods. py_get p (PStr k) (PInt 0) = Inr (PInt (f p k))" by simp
    from sum_field_ints [OF this, of fo 0] show "sum_field fo k (PInt 0) periods
      = Inr (PInt (sum_list (map (\<lambda>p. f p k) periods)))" by simp
  qed
  then have "add_periods fo tracked periods (PDict (map (\<lambda>x. (PStr x, PInt 0)) tracked))
      = Inr (PDict (map (\<lambda>x. (PStr x, PInt (sum_list (map (\<lambda>p. f p x) periods)))) tracked))"
    using add_periods_ok [OF assms(1), of fo "\<lambda>x. PInt 0" periods
        "\<lambda>x. PInt (sum_list (map (\<lambda>p. f p x) periods))"] by simp
  with a show "history_update_data fo tracked r c =
      (Inr (PDict (map (\<lambda>k. (PStr k, PInt (sum_list (map (\<lambda>p. f p k) periods))))
              tracked)), c, [ApiEnergyHistory])"
    by (simp add: history_update_data_sums [OF assms])
next
  assume a: "time_series_records d0 = Inr periods
      \<and> (\<exists>k\<in>set tracked. \<exists>e. sum_field fo k (PInt 0) periods = Inl e)"
  then obtain e' where
    "add_periods fo tracked periods (PDict (map (\<lambda>x. (PStr x, PInt 0)) tracked)) = Inl e'"
    using add_periods_fails [OF assms(1), of fo "\<lambda>x. PInt 0" periods] by auto
  with a show "\<exists>e. history_update_data fo tracked r c = (Inl e, c, [ApiEnergyHistory])"
    by (simp add: history_update_data_sums [OF assms])
next
  assume "time_series_records d0 = Inl e"
  with assms(2) show "history_update_data fo tracked r c = (Inl e, c, [ApiEnergyHistory])"
    by (auto simp: history_update_data_def sum_time_series_def time_series_records_def
          bind_e_def Let_def simp del: py_get.simps split: sum.splits)
qed

theorem history_sums_witness:
  "history_update_data sample_float_ops [''solar_energy_exported'', ''grid_energy_imported'']
       (sample_response (PDict [(PStr ''time_series'', PList
          [PDict [(PStr ''solar_energy_exported'', PFloat (Finite (3 / 2))),
                  (PStr ''grid_energy_imported'', PInt 10)],
           PDict [(PStr ''solar_energy_exported'', PFloat (Finite (9 / 4)))]])]))
       (sample_coordinator 0)
     = (Inr (PDict [(PStr ''solar_energy_exported'', PFloat (Finite (15 / 4))),
                    (PStr ''grid_energy_imported'', PInt 10)]),
        sample_coordinator 0, [ApiEnergyHistory])
   \<and> history_update_data sample_float_ops [''solar_energy_exported'', ''grid_energy_imported'']
       (sample_response (PDict [(PStr ''time_series'', PList
          [PDict [(PStr ''solar_energy_exported'', PInt 3),
                  (PStr ''grid_energy_imported'', PInt 10)],
           PDict [(PStr ''solar_energy_exported'', PInt 4)]])]))
       (sample_coordinator 0)
     = (Inr (PDict [(PStr ''solar_energy_exported'', PInt 7),
                    (PStr ''grid_energy_imported'', PInt 10)]),
        sample_coordinator 0, [ApiEnergyHistory])
   \<and> history_update_data sample_float_ops [''solar_energy_exported'', ''grid_energy_imported'']
       (sample_response (PDict [])) (sample_coordinator 0)
     = (Inr (PDict [(PStr ''solar_energy_exported'', PInt 0),
                    (PStr ''grid_energy_imported'', PInt 0)]),
        sample_coordinator 0, [ApiEnergyHistory])
   \<and> snd (history_update_data sample_float_ops [''solar_energy_exported'']
       (sample_response (PDict [(PStr ''time_series'', PList
          [PDict [(PStr ''solar_energy_exported'', PStr ''n/a'')]])]))
       (sample_coordinator 0))
     = (sample_coordinator 0, [ApiEnergyHistory])
   \<and> history_update_data sample_float_ops [''solar_energy_exported'']
       (sample_response (PDict [(PStr ''time_series'', PInt 5)])) (sample_coordinator 0)
     = (Inl TypeError, sample_coordinator 0, [ApiEnergyHistory])"
  using history_sums [where tracked = "[''solar_energy_exported'', ''grid_energy_imported'']"
          and fo = sample_float_ops
          and r = "sample_response (PDict [(PStr ''time_series'', PList
              [PDict [(PStr ''solar_energy_exported'', PFloat (Finite (3 / 2))),
                      (PStr ''grid_energy_imported'', PInt 10)],
               PDict [(PStr ''solar_energy_exported'', PFloat (Finite (9 / 4)))]])])"
          and c = "sample_coordinator 0"
          and periods = "[PDict [(PStr ''solar_energy_exported'', PFloat (Finite (3 / 2))),
                                 (PStr ''grid_energy_imported'', PInt 10)],
                          PDict [(PStr ''solar_energy_exported'', PFloat (Finite (9 / 4)))]]"
          and ?d0.0 = "PDict [(PStr ''time_series'', PList
              [PDict [(PStr ''solar_energy_exported'', PFloat (Finite (3 / 2))),
                      (PStr ''grid_energy_imported'', PInt 10)],
               PDict [(PStr ''solar_energy_exported'', PFloat (Finite (9 / 4)))]])]"
          and tot = "\<lambda>k. if k = ''solar_energy_exported'' then PFloat (Finite (15 / 4))
                           else PInt 10"
          and f = "\<lambda>p k. 0" and e = TypeError]
        history_sums [where tracked = "[''solar_energy_exported'', ''grid_energy_imported'']"
          and fo = sample_float_ops
          and r = "sample_response (PDict [(PStr ''time_series'', PList
              [PDict [(PStr ''solar_energy_exported'', PInt 3),
                      (PStr ''grid_energy_imported'', PInt 10)],
               PDict [(PStr ''solar_energy_exported'', PInt 4)]])])"
          and c = "sample_coordinator 0"
          and periods = "[PDict [(PStr ''solar_energy_exported'', PInt 3),
                                 (PStr ''grid_energy_imported'', PInt 10)],
                          PDict [(PStr ''solar_energy_exported'', PInt 4)]]"
          and ?d0.0 = "PDict [(PStr ''time_series'', PList
              [PDict [(PStr ''solar_energy_exported'', PInt 3),
                      (PStr ''grid_energy_imported'', PInt 10)],
               PDict [(PStr ''solar_energy_exported'', PInt 4)]])]"
          and tot = "\<lambda>k. PNone"
          and f = "\<lambda>p k. if k = ''grid_energy_imported''
                            then (if p = PDict [(PStr ''solar_energy_exported'', PInt 4)]
                                  then 0 else 10)
                            else (if p = PDict [(PStr ''solar_energy_exported'', PInt 4)]
                                  then 4 else 3)"
          and e = TypeError]
        history_sums [where tracked = "[''solar_energy_exported'', ''grid_energy_imported'']"
          and fo = sample_float_ops
          and r = "sample_response (PDict [])" and c = "sample_coordinator 0"
          and periods = "[]" and ?d0.0 = "PDict []" and tot = "\<lambda>k. PInt 0"
          and f = "\<lambda>p k. 0" and e = TypeError]
        history_sums [where tracked = "[''solar_energy_exported'']"
          and fo = sample_float_ops
          and r = "sample_response (PDict [(PStr ''time_series'', PList
              [PDict [(PStr ''solar_energy_exported'', PStr ''n/a'')]])])"
          and c = "sample_coordinator 0"
          and periods = "[PDict [(PStr ''solar_energy_exported'', PStr ''n/a'')]]"
          and ?d0.0 = "PDict [(PStr ''time_series'', PList
              [PDict [(PStr ''solar_energy_exported'', PStr ''n/a'')]])]"
          and tot = "\<lambda>k. PNone" and f = "\<lambda>p k. 0" and e = TypeError]
        history_sums [where tracked = "[''solar_energy_exported'']"
          and fo = sample_float_ops
          and r = "sample_response (PDict [(PStr ''time_series'', PInt 5)])"
          and c = "sample_coordinator 0" and periods = "[]"
          and ?d0.0 = "PDict [(PStr ''time_series'', PInt 5)]"
          and tot = "\<lambda>k. PNone" and f = "\<lambda>p k. 0" and e = TypeError]
  by (auto simp: sample_response_def energy_try_def bind_e_def time_series_records_def
        add_field_def add_numbers_def sample_float_ops_def)

text \<open>
  The claim as stated fails for a fetch result in which a record holds \<open>null\<close> for a
  tracked field: the addition raises \<open>TypeError\<close>, outside the \<open>try\<close> statement, and the
  call returns no mapping.
\<close>

theorem history_null_value_raises:
  "history_update_data sample_float_ops [''solar_energy_exported'']
       (sample_response (PDict [(PStr ''time_series'', PList
          [PDict [(PStr ''solar_energy_exported'', PInt 3)],
           PDict [(PStr ''solar_energy_exported'', PNone)]])]))
       (sample_coordinator 0)
     = (Inl TypeError, sample_coordinator 0, [ApiEnergyHistory])"
  by (simp add: history_update_data_def sum_time_series_def energy_try_def bind_e_def
        sample_response_def add_numbers_def)

section \<open>The wall connectors of the live status\<close>

lemma dict_store_new_zip:
  "length ds = length ws \<Longrightarrow> x \<notin> set ds \<Longrightarrow>
   dict_store (zip (map PStr ds) ws) (PStr x) w = zip (map PStr ds) ws @ [(PStr x, w)]"
  by (induction ds ws rule: list_induct2) auto

lemma by_din_zip:
  "map (\<lambda>wc. py_getitem wc (PStr ''din'')) wcs = map (\<lambda>x. Inr (PStr x)) dins \<Longrightarrow>
   distinct (ds @ dins) \<Longrightarrow> length ds = length ws \<Longrightarrow>
   by_din wcs (zip (map PStr ds) ws) = Inr (zip (map PStr (ds @ dins)) (ws @ wcs))"
proof (induction wcs arbitrary: dins ds ws)
  case Nil
  then show ?case by simp
next
  case (Cons wc wcs)
  from Cons.prems(1) obtain x dins' where dins: "dins = x # dins'"
    and wc: "py_getitem wc (PStr ''din'') = Inr (PStr x)"
    and rest: "map (\<lambda>wc. py_getitem wc (PStr ''din'')) wcs = map (\<lambda>x. Inr (PStr x)) dins'"
    by (cases dins) auto
  from Cons.prems(2) dins have x: "x \<notin> set ds" and d: "distinct ((ds @ [x]) @ dins')"
    by auto
  have l: "length (ds @ [x]) = length (ws @ [wc])" using Cons.prems(3) by simp
  have st: "dict_store (zip (map PStr ds) ws) (PStr x) wc
      = zip (map PStr (ds @ [x])) (ws @ [wc])"
    using dict_store_new_zip [OF Cons.prems(3) x] Cons.prems(3) by simp
  show ?case
    using Cons.IH [OF rest d l] wc st dins by simp
qed

text \<open>
  Claim C6. For a successful energy-live fetch: when \<open>wall_connectors\<close> is a list of
  records with distinct string \<open>din\<close>s, the returned data has under \<open>wall_connectors\<close> the
  dictionary with one entry for each record, in order, its key the record's \<open>din\<close> and
  its value the record; when the field is absent or not a list (or the response is not a
  dictionary), it has the empty dictionary there.
\<close>

theorem wall_connectors_by_din:
  assumes "energy_try r = Inr d0"
    and "(if \<not> is_dict d0 then PDict [] else d0) = PDict m"
  shows "(dict_lookup m (PStr ''wall_connectors'') = Some (PList wcs)
          \<and> map (\<lambda>wc. py_getitem wc (PStr ''din'')) wcs = map (\<lambda>x. Inr (PStr x)) dins
          \<and> distinct dins \<longrightarrow>
          live_update_data r c =
            (Inr (PDict (dict_store m (PStr ''wall_connectors'')
                           (PDict (zip (map PStr dins) wcs)))),
             c, [ApiLiveStatus, BusFire ''teslemetry_live_status'' (PDict m)]))
       \<and> ((case dict_lookup m (PStr ''wall_connectors'') of
              None \<Rightarrow> True | Some w \<Rightarrow> \<not> is_list w) \<longrightarrow>
          live_update_data r c =
            (Inr (PDict (dict_store m (PStr ''wall_connectors'') (PDict []))),
             c, [ApiLiveStatus, BusFire ''teslemetry_live_status'' (PDict m)]))
       \<and> dict_lookup (dict_store m (PStr ''wall_connectors'') w) (PStr ''wall_connectors'')
           = Some w"
proof (intro conjI impI)
  assume a: "dict_lookup m (PStr ''wall_connectors'') = Some (PList wcs)
          \<and> map (\<lambda>wc. py_getitem wc (PStr ''din'')) wcs = map (\<lambda>x. Inr (PStr x)) dins
          \<and> distinct dins"
  then have "by_din wcs [] = Inr (zip (map PStr dins) wcs)"
    using by_din_zip [of wcs dins "[]" "[]"] by simp
  with a assms show "live_update_data r c =
            (Inr (PDict (dict_store m (PStr ''wall_connectors'')
                           (PDict (zip (map PStr dins) wcs)))),
             c, [ApiLiveStatus, BusFire ''teslemetry_live_status'' (PDict m)])"
    by (simp add: live_update_data_def convert_wall_connectors_def bind_e_def Let_def)
next
  assume "case dict_lookup m (PStr ''wall_connectors'') of
              None \<Rightarrow> True | Some w \<Rightarrow> \<not> is_list w"
  with assms show "live_update_data r c =
            (Inr (PDict (dict_store m (PStr ''wall_connectors'') (PDict []))),
             c, [ApiLiveStatus, BusFire ''teslemetry_live_status'' (PDict m)])"
    by (auto simp: live_update_data_def convert_wall_connectors_def bind_e_def Let_def
          split: option.splits)
next
  show "dict_lookup (dict_store m (PStr ''wall_connectors'') w) (PStr ''wall_connectors'')
           = Some w"
    by simp
qed

theorem wall_connectors_by_din_witness:
  "live_update_data
       (sample_response (PDict [(PStr ''solar_power'', PInt 5),
          (PStr ''wall_connectors'',
           PList [PDict [(PStr ''din'', PStr ''A''), (PStr ''state'', PInt 1)],
                  PDict [(PStr ''din'', PStr ''B'')]])]))
       (sample_coordinator 0)
     = (Inr (PDict [(PStr ''solar_power'', PInt 5),
          (PStr ''wall_connectors'',
           PDict [(PStr ''A'', PDict [(PStr ''din'', PStr ''A''), (PStr ''state'', PInt 1)]),
                  (PStr ''B'', PDict [(PStr ''din'', PStr ''B'')])])]),
        sample_coordinator 0,
        [ApiLiveStatus,
         BusFire ''teslemetry_live_status''
           (PDict [(PStr ''solar_power'', PInt 5),
              (PStr ''wall_connectors'',
               PList [PDict [(PStr ''din'', PStr ''A''), (PStr ''state'', PInt 1)],
                      PDict [(PStr ''din'', PStr ''B'')]])])])
   \<and> fst (live_update_data (sample_response (PList [])) (sample_coordinator 0))
     = Inr (PDict [(PStr ''wall_connectors'', PDict [])])"
  using wall_connectors_by_din [where r = "sample_response
            (PDict [(PStr ''solar_power'', PInt 5),
               (PStr ''wall_connectors'',
                PList [PDict [(PStr ''din'', PStr ''A''), (PStr ''state'', PInt 1)],
                       PDict [(PStr ''din'', PStr ''B'')]])])"
          and ?d0.0 = "PDict [(PStr ''solar_power'', PInt 5),
               (PStr ''wall_connectors'',
                PList [PDict [(PStr ''din'', PStr ''A''), (PStr ''state'', PInt 1)],
                       PDict [(PStr ''din'', PStr ''B'')]])]"
          and m = "[(PStr ''solar_power'', PInt 5),
               (PStr ''wall_connectors'',
                PList [PDict [(PStr ''din'', PStr ''A''), (PStr ''state'', PInt 1)],
                       PDict [(PStr ''din'', PStr ''B'')]])]"
          and wcs = "[PDict [(PStr ''din'', PStr ''A''), (PStr ''state'', PInt 1)],
                      PDict [(PStr ''din'', PStr ''B'')]]"
          and dins = "[''A'', ''B'']" and c = "sample_coordinator 0" and w = PNone]
        wall_connectors_by_din [where r = "sample_response (PList [])"
          and ?d0.0 = "PList []" and m = "[]" and wcs = "[]" and dins = "[]"
          and c = "sample_coordinator 0" and w = PNone]
  by (simp add: sample_response_def energy_try_def bind_e_def)

end
